theory Spec2Isabelle
  imports Main "HOL-Library.AList" "HOL-Library.Multiset"
begin

section \<open>Data model (shared/schema.ts)\<close>

text \<open>
  Identifiers are strings (UUIDs). A \<^verbatim>\<open>Date\<close> or SQL timestamp is the integer number of
  milliseconds since the epoch, so \<^verbatim>\<open>new Date(0)\<close> is \<open>0\<close> and comparing two dates
  compares these integers. Nullable columns are options. Every read of the clock
  (\<^verbatim>\<open>new Date()\<close>, \<^verbatim>\<open>defaultNow()\<close>) made by one storage call is the parameter \<open>now\<close> of
  that call, and every \<^verbatim>\<open>crypto.randomUUID()\<close> whose value is read later is a parameter
  \<open>newId\<close>. The generated \<^verbatim>\<open>id\<close> of a participant row is never read by any operation
  and is left out of the row.
\<close>

record User =
  u_id :: string
  username :: string
  displayName :: string
  isOnline :: bool

record Conversation =
  c_id :: string
  c_name :: "string option"
  isGroup :: bool
  c_createdAt :: int
  lastMessageAt :: "int option"

record ConversationParticipant =
  p_conversationId :: string
  p_userId :: string
  joinedAt :: int
  lastReadAt :: "int option"

record Message =
  m_id :: string
  m_conversationId :: string
  m_senderId :: "string option"
  m_content :: string
  isSystem :: bool
  m_createdAt :: int

datatype FriendStatus = pending | accepted | rejected

record FriendRequest =
  fr_id :: string
  fr_senderId :: string
  fr_receiverId :: string
  status :: FriendStatus
  fr_createdAt :: int

record CreateConversationRequest =
  participantIds :: "string list"
  req_isGroup :: bool
  req_name :: "string option"

record InsertMessage =
  im_conversationId :: string
  im_senderId :: "string option"
  im_content :: string
  im_isSystem :: bool

type_synonym MessageWithSender = "Message \<times> User option"

section \<open>MemStorage (unnamed/part_006, the in-memory implementation of the storage module)\<close>

text \<open>
  A JavaScript \<^verbatim>\<open>Map\<close> keeps its keys in insertion order: it is an association list,
  \<^verbatim>\<open>get\<close> is \<^const>\<open>map_of\<close>, and \<^verbatim>\<open>set\<close> is \<^const>\<open>AList.update\<close>, which overwrites
  the entry of an existing key in place and appends a new key at the end.
  The objects held by the maps are created by the call that stores them (or by
  \<^verbatim>\<open>JSON.parse\<close> at load), so no two entries share an object and an in-place update of
  one entry is an update of that entry alone. Writing the snapshot file (\<^verbatim>\<open>save\<close>) does
  not touch the maps and is left out.
\<close>

record MemStorage =
  users :: "(string \<times> User) list"
  conversations :: "(string \<times> Conversation) list"
  conversationParticipants :: "(string \<times> ConversationParticipant list) list"
  messages :: "(string \<times> Message list) list"
  friendRequests :: "(string \<times> FriendRequest) list"

text \<open>\<^verbatim>\<open>this.conversationParticipants.get(conversationId) || []\<close>\<close>

definition mem_participants :: "MemStorage \<Rightarrow> string \<Rightarrow> ConversationParticipant list" where
  "mem_participants st conversationId =
     (case map_of (conversationParticipants st) conversationId of
        None \<Rightarrow> [] | Some ps \<Rightarrow> ps)"

text \<open>\<^verbatim>\<open>this.messages.get(conversationId) || []\<close>\<close>

definition mem_messages :: "MemStorage \<Rightarrow> string \<Rightarrow> Message list" where
  "mem_messages st conversationId =
     (case map_of (messages st) conversationId of None \<Rightarrow> [] | Some ms \<Rightarrow> ms)"

definition MemStorage_getUserById :: "MemStorage \<Rightarrow> string \<Rightarrow> User option" where
  "MemStorage_getUserById st i = map_of (users st) i"

definition MemStorage_getConversationById :: "MemStorage \<Rightarrow> string \<Rightarrow> Conversation option" where
  "MemStorage_getConversationById st i = map_of (conversations st) i"

definition MemStorage_addParticipant :: "MemStorage \<Rightarrow> string \<Rightarrow> string \<Rightarrow> int \<Rightarrow> MemStorage" where
  "MemStorage_addParticipant st conversationId userId now =
     (let participants = mem_participants st conversationId;
          row = \<lparr>p_conversationId = conversationId, p_userId = userId,
                 joinedAt = now, lastReadAt = Some now\<rparr>
      in st\<lparr>conversationParticipants :=
              AList.update conversationId (participants @ [row]) (conversationParticipants st)\<rparr>)"

text \<open>\<^verbatim>\<open>data.name || null\<close>: a missing or empty name is stored as null.\<close>

definition orNull :: "string option \<Rightarrow> string option" where
  "orNull n = (case n of None \<Rightarrow> None | Some s \<Rightarrow> if s = [] then None else Some s)"

definition MemStorage_createConversation ::
  "MemStorage \<Rightarrow> CreateConversationRequest \<Rightarrow> string \<Rightarrow> string \<Rightarrow> int \<Rightarrow> Conversation \<times> MemStorage" where
  "MemStorage_createConversation st data creatorId newId now =
     (let conv = \<lparr>c_id = newId, c_name = orNull (req_name data), isGroup = req_isGroup data,
                  c_createdAt = now, lastMessageAt = Some now\<rparr>;
          st1 = st\<lparr>conversations := AList.update newId conv (conversations st)\<rparr>;
          st2 = MemStorage_addParticipant st1 newId creatorId now;
          st3 = foldl (\<lambda>s userId. MemStorage_addParticipant s newId userId now) st2
                  (participantIds data)
      in (conv, st3))"

definition MemStorage_getConversationParticipants :: "MemStorage \<Rightarrow> string \<Rightarrow> User list" where
  "MemStorage_getConversationParticipants st conversationId =
     List.map_filter (\<lambda>p. map_of (users st) (p_userId p)) (mem_participants st conversationId)"

definition MemStorage_isUserInConversation :: "MemStorage \<Rightarrow> string \<Rightarrow> string \<Rightarrow> bool" where
  "MemStorage_isUserInConversation st userId conversationId =
     list_ex (\<lambda>p. p_userId p = userId) (mem_participants st conversationId)"



text \<open>\<^verbatim>\<open>p.lastReadAt || new Date(0)\<close>\<close>

definition orEpoch :: "int option \<Rightarrow> int" where
  "orEpoch t = (case t of None \<Rightarrow> 0 | Some w \<Rightarrow> w)"

definition MemStorage_getUnreadCount :: "MemStorage \<Rightarrow> string \<Rightarrow> string \<Rightarrow> nat" where
  "MemStorage_getUnreadCount st userId conversationId =
     (let participants = mem_participants st conversationId
      in case find (\<lambda>p. p_userId p = userId) participants of
           None \<Rightarrow> 0
         | Some p \<Rightarrow>
             (let convMessages = mem_messages st conversationId
              in length (filter (\<lambda>m. m_createdAt m > orEpoch (lastReadAt p)) convMessages)))"

definition MemStorage_updateConversationLastMessage :: "MemStorage \<Rightarrow> string \<Rightarrow> int \<Rightarrow> MemStorage" where
  "MemStorage_updateConversationLastMessage st conversationId now =
     (case map_of (conversations st) conversationId of
        None \<Rightarrow> st
      | Some conv \<Rightarrow>
          st\<lparr>conversations :=
               AList.update conversationId (conv\<lparr>lastMessageAt := Some now\<rparr>) (conversations st)\<rparr>)"

text \<open>
  \<^verbatim>\<open>xs.slice(-limit)\<close> for a natural \<open>limit\<close>: the last \<open>limit\<close> elements, and the whole
  array when \<open>limit\<close> is zero (\<^verbatim>\<open>-0\<close> is the start index \<open>0\<close>).
\<close>

definition sliceLast :: "nat \<Rightarrow> 'a list \<Rightarrow> 'a list" where
  "sliceLast limit xs = (if limit = 0 then xs else drop (length xs - limit) xs)"

text \<open>
  The loop that resolves senders, the same in both implementations: a system message is
  kept without a sender, another message is kept only when its sender is found.
\<close>

fun withSenders :: "(string \<Rightarrow> User option) \<Rightarrow> Message list \<Rightarrow> MessageWithSender list" where
  "withSenders getUser [] = []"
| "withSenders getUser (m # ms) =
     (if isSystem m then (m, None) # withSenders getUser ms
      else case (case m_senderId m of None \<Rightarrow> None | Some s \<Rightarrow> getUser s) of
             Some sender \<Rightarrow> (m, Some sender) # withSenders getUser ms
           | None \<Rightarrow> withSenders getUser ms)"

definition MemStorage_getMessagesByConversationId ::
  "MemStorage \<Rightarrow> string \<Rightarrow> nat \<Rightarrow> MessageWithSender list" where
  "MemStorage_getMessagesByConversationId st conversationId limit =
     (let convMessages = mem_messages st conversationId;
          limitedMessages = sliceLast limit convMessages
      in withSenders (MemStorage_getUserById st) limitedMessages)"

definition MemStorage_createMessage ::
  "MemStorage \<Rightarrow> InsertMessage \<Rightarrow> string \<Rightarrow> int \<Rightarrow> MessageWithSender \<times> MemStorage" where
  "MemStorage_createMessage st data newId now =
     (let message = \<lparr>m_id = newId, m_conversationId = im_conversationId data,
                     m_senderId = im_senderId data, m_content = im_content data,
                     isSystem = im_isSystem data, m_createdAt = now\<rparr>;
          convMessages = mem_messages st (im_conversationId data);
          st1 = st\<lparr>messages :=
                    AList.update (im_conversationId data) (convMessages @ [message]) (messages st)\<rparr>;
          st2 = MemStorage_updateConversationLastMessage st1 (im_conversationId data) now
      in if isSystem message then ((message, None), st2)
         else case m_senderId message of
                Some s \<Rightarrow>
                  if s \<noteq> [] then ((message, MemStorage_getUserById st2 s), st2)
                  else ((message, None), st2)
              | None \<Rightarrow> ((message, None), st2))"

definition mem_isPrivateOf :: "MemStorage \<Rightarrow> string \<Rightarrow> string \<Rightarrow> Conversation \<Rightarrow> bool" where
  "mem_isPrivateOf st userId1 userId2 conv =
     (\<not> isGroup conv \<and>
      (let participants = mem_participants st (c_id conv);
           userIds = map p_userId participants
       in length userIds = 2 \<and> userId1 \<in> set userIds \<and> userId2 \<in> set userIds))"

definition MemStorage_findOrCreatePrivateConversation ::
  "MemStorage \<Rightarrow> string \<Rightarrow> string \<Rightarrow> string \<Rightarrow> int \<Rightarrow> Conversation \<times> MemStorage" where
  "MemStorage_findOrCreatePrivateConversation st userId1 userId2 newId now =
     (let allConvs = map snd (conversations st)
      in case find (mem_isPrivateOf st userId1 userId2) allConvs of
           Some conv \<Rightarrow> (conv, st)
         | None \<Rightarrow>
             MemStorage_createConversation st
               \<lparr>participantIds = [userId2], req_isGroup = False, req_name = None\<rparr>
               userId1 newId now)"

definition betweenPair :: "string \<Rightarrow> string \<Rightarrow> FriendRequest \<Rightarrow> bool" where
  "betweenPair senderId receiverId r =
     ((fr_senderId r = senderId \<and> fr_receiverId r = receiverId) \<or>
      (fr_senderId r = receiverId \<and> fr_receiverId r = senderId))"

text \<open>
  The found record is the object stored under its own id (every \<^verbatim>\<open>set\<close> of this map, and
  the loader, use the record's id as the key), so mutating it and storing it again under
  \<^verbatim>\<open>existing.id\<close> rewrites that one entry.
\<close>

definition MemStorage_sendFriendRequest ::
  "MemStorage \<Rightarrow> string \<Rightarrow> string \<Rightarrow> string \<Rightarrow> int \<Rightarrow> FriendRequest \<times> MemStorage" where
  "MemStorage_sendFriendRequest st senderId receiverId newId now =
     (case find (betweenPair senderId receiverId) (map snd (friendRequests st)) of
        Some existing \<Rightarrow>
          if status existing = rejected then
            (let existing' = existing\<lparr>status := pending, fr_senderId := senderId,
                                      fr_receiverId := receiverId, fr_createdAt := now\<rparr>
             in (existing',
                 st\<lparr>friendRequests := AList.update (fr_id existing) existing' (friendRequests st)\<rparr>))
          else (existing, st)
      | None \<Rightarrow>
          (let request = \<lparr>fr_id = newId, fr_senderId = senderId, fr_receiverId = receiverId,
                          status = pending, fr_createdAt = now\<rparr>
           in (request, st\<lparr>friendRequests := AList.update newId request (friendRequests st)\<rparr>)))"

text \<open>The status a receiver may set: \<^verbatim>\<open>"accepted" | "rejected"\<close>.\<close>

datatype Decision = accept | reject

fun statusOf :: "Decision \<Rightarrow> FriendStatus" where
  "statusOf accept = accepted"
| "statusOf reject = rejected"

definition MemStorage_updateFriendRequestStatus :: "MemStorage \<Rightarrow> string \<Rightarrow> Decision \<Rightarrow> MemStorage" where
  "MemStorage_updateFriendRequestStatus st requestId d =
     (case map_of (friendRequests st) requestId of
        None \<Rightarrow> st
      | Some request \<Rightarrow>
          st\<lparr>friendRequests :=
               AList.update requestId (request\<lparr>status := statusOf d\<rparr>) (friendRequests st)\<rparr>)"

definition MemStorage_getFriendRequestById :: "MemStorage \<Rightarrow> string \<Rightarrow> FriendRequest option" where
  "MemStorage_getFriendRequestById st requestId = map_of (friendRequests st) requestId"

section \<open>DatabaseStorage (unnamed/part_006, the relational implementation)\<close>

text \<open>
  A table is the list of its rows in insertion order. A \<^verbatim>\<open>select\<close> without
  \<^verbatim>\<open>orderBy\<close> returns the matching rows in table order, an \<^verbatim>\<open>update\<close> rewrites every
  matching row in place, an \<^verbatim>\<open>insert\<close> appends. \<^verbatim>\<open>const [row] = ... .limit(1)\<close> is
  \<^const>\<open>find\<close>. The database itself promises no order for such a \<^verbatim>\<open>select\<close>, least of all
  after an \<^verbatim>\<open>update\<close>: what is stated below of the friend-request table after an update
  is stated of its rows whatever their order, for a pair with one record between them.
  Columns with \<^verbatim>\<open>defaultNow()\<close> get \<open>now\<close>. The database is connected
  and answers every statement; what its constraints reject is kept out by premises on
  the stored rows and on new ids.
\<close>

record DatabaseStorage =
  db_users :: "User list"
  db_conversations :: "Conversation list"
  db_conversationParticipants :: "ConversationParticipant list"
  db_messages :: "Message list"
  db_friendRequests :: "FriendRequest list"

definition DatabaseStorage_getUserById :: "DatabaseStorage \<Rightarrow> string \<Rightarrow> User option" where
  "DatabaseStorage_getUserById st i = find (\<lambda>u. u_id u = i) (db_users st)"

definition DatabaseStorage_getConversationById :: "DatabaseStorage \<Rightarrow> string \<Rightarrow> Conversation option" where
  "DatabaseStorage_getConversationById st i = find (\<lambda>c. c_id c = i) (db_conversations st)"

definition DatabaseStorage_addParticipant ::
  "DatabaseStorage \<Rightarrow> string \<Rightarrow> string \<Rightarrow> int \<Rightarrow> DatabaseStorage" where
  "DatabaseStorage_addParticipant st conversationId userId now =
     st\<lparr>db_conversationParticipants := db_conversationParticipants st @
          [\<lparr>p_conversationId = conversationId, p_userId = userId,
            joinedAt = now, lastReadAt = Some now\<rparr>]\<rparr>"

text \<open>\<^verbatim>\<open>[...new Set(xs)]\<close>: the elements of \<open>xs\<close> in order of first occurrence.\<close>

definition setSpread :: "'a list \<Rightarrow> 'a list" where
  "setSpread xs = foldl (\<lambda>acc x. if x \<in> set acc then acc else acc @ [x]) [] xs"

definition DatabaseStorage_createConversation ::
  "DatabaseStorage \<Rightarrow> CreateConversationRequest \<Rightarrow> string \<Rightarrow> string \<Rightarrow> int
     \<Rightarrow> Conversation \<times> DatabaseStorage" where
  "DatabaseStorage_createConversation st data creatorId newId now =
     (let conversation = \<lparr>c_id = newId, c_name = req_name data, isGroup = req_isGroup data,
                          c_createdAt = now, lastMessageAt = Some now\<rparr>;
          st1 = st\<lparr>db_conversations := db_conversations st @ [conversation]\<rparr>;
          allParticipantIds = participantIds data @ [creatorId];
          uniqueParticipantIds = setSpread allParticipantIds;
          st2 = foldl (\<lambda>s participantId. DatabaseStorage_addParticipant s newId participantId now)
                  st1 uniqueParticipantIds
      in (conversation, st2))"

definition db_participants :: "DatabaseStorage \<Rightarrow> string \<Rightarrow> ConversationParticipant list" where
  "db_participants st conversationId =
     filter (\<lambda>p. p_conversationId p = conversationId) (db_conversationParticipants st)"

definition DatabaseStorage_getConversationParticipants :: "DatabaseStorage \<Rightarrow> string \<Rightarrow> User list" where
  "DatabaseStorage_getConversationParticipants st conversationId =
     (let userIds = map p_userId (db_participants st conversationId)
      in if userIds = [] then [] else filter (\<lambda>u. u_id u \<in> set userIds) (db_users st))"

definition DatabaseStorage_isUserInConversation :: "DatabaseStorage \<Rightarrow> string \<Rightarrow> string \<Rightarrow> bool" where
  "DatabaseStorage_isUserInConversation st userId conversationId =
     (find (\<lambda>p. p_userId p = userId \<and> p_conversationId p = conversationId)
        (db_conversationParticipants st) \<noteq> None)"


text \<open>
  In SQL a comparison with a null watermark is null, which \<^verbatim>\<open>where\<close> treats as false:
  no message is counted.
\<close>

definition DatabaseStorage_getUnreadCount :: "DatabaseStorage \<Rightarrow> string \<Rightarrow> string \<Rightarrow> nat" where
  "DatabaseStorage_getUnreadCount st userId conversationId =
     (case find (\<lambda>p. p_userId p = userId \<and> p_conversationId p = conversationId)
             (db_conversationParticipants st) of
        None \<Rightarrow> 0
      | Some participant \<Rightarrow>
          length (filter (\<lambda>m. m_conversationId m = conversationId \<and>
                               (case lastReadAt participant of
                                  None \<Rightarrow> False | Some w \<Rightarrow> m_createdAt m > w))
                    (db_messages st)))"

definition DatabaseStorage_updateConversationLastMessage ::
  "DatabaseStorage \<Rightarrow> string \<Rightarrow> int \<Rightarrow> DatabaseStorage" where
  "DatabaseStorage_updateConversationLastMessage st conversationId now =
     st\<lparr>db_conversations :=
          map (\<lambda>c. if c_id c = conversationId then c\<lparr>lastMessageAt := Some now\<rparr> else c)
            (db_conversations st)\<rparr>"

text \<open>
  \<^verbatim>\<open>orderBy(desc(messages.createdAt))\<close>: newest first. Rows with equal timestamps are kept
  in table order (the database may return them in any order).
\<close>

definition orderByCreatedAtDesc :: "Message list \<Rightarrow> Message list" where
  "orderByCreatedAtDesc ms = sort_key (\<lambda>m. - m_createdAt m) ms"

definition DatabaseStorage_getMessagesByConversationId ::
  "DatabaseStorage \<Rightarrow> string \<Rightarrow> nat \<Rightarrow> MessageWithSender list" where
  "DatabaseStorage_getMessagesByConversationId st conversationId limit =
     (let messagesList =
            take limit (orderByCreatedAtDesc
              (filter (\<lambda>m. m_conversationId m = conversationId) (db_messages st)))
      in withSenders (DatabaseStorage_getUserById st) (rev messagesList))"

definition DatabaseStorage_createMessage ::
  "DatabaseStorage \<Rightarrow> InsertMessage \<Rightarrow> string \<Rightarrow> int \<Rightarrow> MessageWithSender \<times> DatabaseStorage" where
  "DatabaseStorage_createMessage st data newId now =
     (let message = \<lparr>m_id = newId, m_conversationId = im_conversationId data,
                     m_senderId = im_senderId data, m_content = im_content data,
                     isSystem = im_isSystem data, m_createdAt = now\<rparr>;
          st1 = st\<lparr>db_messages := db_messages st @ [message]\<rparr>;
          st2 = DatabaseStorage_updateConversationLastMessage st1 (im_conversationId data) now
      in if isSystem message then ((message, None), st2)
         else case m_senderId message of
                Some s \<Rightarrow>
                  if s \<noteq> [] then ((message, DatabaseStorage_getUserById st2 s), st2)
                  else ((message, None), st2)
              | None \<Rightarrow> ((message, None), st2))"

text \<open>The loop over the common conversation ids, returning at the first match.\<close>

fun db_findPrivate :: "DatabaseStorage \<Rightarrow> string list \<Rightarrow> Conversation option" where
  "db_findPrivate st [] = None"
| "db_findPrivate st (convId # rest) =
     (case DatabaseStorage_getConversationById st convId of
        Some conversation \<Rightarrow>
          if \<not> isGroup conversation \<and>
             length (DatabaseStorage_getConversationParticipants st convId) = 2
          then Some conversation
          else db_findPrivate st rest
      | None \<Rightarrow> db_findPrivate st rest)"

definition db_commonConvIds :: "DatabaseStorage \<Rightarrow> string \<Rightarrow> string \<Rightarrow> string list" where
  "db_commonConvIds st userId1 userId2 =
     (let user1Conversations = filter (\<lambda>p. p_userId p = userId1) (db_conversationParticipants st);
          user2Conversations = filter (\<lambda>p. p_userId p = userId2) (db_conversationParticipants st);
          user1ConvIds = set (map p_conversationId user1Conversations)
      in filter (\<lambda>i. i \<in> user1ConvIds) (map p_conversationId user2Conversations))"

definition DatabaseStorage_findOrCreatePrivateConversation ::
  "DatabaseStorage \<Rightarrow> string \<Rightarrow> string \<Rightarrow> string \<Rightarrow> int \<Rightarrow> Conversation \<times> DatabaseStorage" where
  "DatabaseStorage_findOrCreatePrivateConversation st userId1 userId2 newId now =
     (case db_findPrivate st (db_commonConvIds st userId1 userId2) of
        Some conversation \<Rightarrow> (conversation, st)
      | None \<Rightarrow>
          DatabaseStorage_createConversation st
            \<lparr>participantIds = [userId2], req_isGroup = False, req_name = None\<rparr>
            userId1 newId now)"

text \<open>
  \<^verbatim>\<open>update ... where id = existing.id ... returning()\<close>: the id is the primary key, so the
  row returned is the found row with its new field values. The updated table is written
  with the row in its old place; the database may keep it elsewhere.
\<close>

definition DatabaseStorage_sendFriendRequest ::
  "DatabaseStorage \<Rightarrow> string \<Rightarrow> string \<Rightarrow> string \<Rightarrow> int \<Rightarrow> FriendRequest \<times> DatabaseStorage" where
  "DatabaseStorage_sendFriendRequest st senderId receiverId newId now =
     (case find (betweenPair senderId receiverId) (db_friendRequests st) of
        Some existing \<Rightarrow>
          if status existing = rejected then
            (let upd = (\<lambda>r. r\<lparr>status := pending, fr_senderId := senderId,
                                fr_receiverId := receiverId, fr_createdAt := now\<rparr>)
             in (upd existing,
                 st\<lparr>db_friendRequests :=
                      map (\<lambda>r. if fr_id r = fr_id existing then upd r else r)
                        (db_friendRequests st)\<rparr>))
          else (existing, st)
      | None \<Rightarrow>
          (let request = \<lparr>fr_id = newId, fr_senderId = senderId, fr_receiverId = receiverId,
                          status = pending, fr_createdAt = now\<rparr>
           in (request, st\<lparr>db_friendRequests := db_friendRequests st @ [request]\<rparr>)))"

definition DatabaseStorage_updateFriendRequestStatus ::
  "DatabaseStorage \<Rightarrow> string \<Rightarrow> Decision \<Rightarrow> DatabaseStorage" where
  "DatabaseStorage_updateFriendRequestStatus st requestId d =
     st\<lparr>db_friendRequests :=
          map (\<lambda>r. if fr_id r = requestId then r\<lparr>status := statusOf d\<rparr> else r)
            (db_friendRequests st)\<rparr>"

definition DatabaseStorage_getFriendRequestById ::
  "DatabaseStorage \<Rightarrow> string \<Rightarrow> FriendRequest option" where
  "DatabaseStorage_getFriendRequestById st requestId =
     find (\<lambda>r. fr_id r = requestId) (db_friendRequests st)"

section \<open>The storage interface and the friend-request route (server/routes.ts)\<close>

text \<open>
  \<^verbatim>\<open>IStorage\<close> restricted to the operations the modelled handlers call. The handlers
  are written once against the interface, as in the source, and run on either
  implementation.
\<close>

record 's IStorage =
  getUserById :: "'s \<Rightarrow> string \<Rightarrow> User option"
  isUserInConversation :: "'s \<Rightarrow> string \<Rightarrow> string \<Rightarrow> bool"
  getFriendRequestById :: "'s \<Rightarrow> string \<Rightarrow> FriendRequest option"
  updateFriendRequestStatus :: "'s \<Rightarrow> string \<Rightarrow> Decision \<Rightarrow> 's"
  findOrCreatePrivateConversation :: "'s \<Rightarrow> string \<Rightarrow> string \<Rightarrow> string \<Rightarrow> int \<Rightarrow> Conversation \<times> 's"
  createMessage :: "'s \<Rightarrow> InsertMessage \<Rightarrow> string \<Rightarrow> int \<Rightarrow> MessageWithSender \<times> 's"

definition memStorage :: "MemStorage IStorage" where
  "memStorage =
     \<lparr>getUserById = MemStorage_getUserById,
      isUserInConversation = MemStorage_isUserInConversation,
      getFriendRequestById = MemStorage_getFriendRequestById,
      updateFriendRequestStatus = MemStorage_updateFriendRequestStatus,
      findOrCreatePrivateConversation = MemStorage_findOrCreatePrivateConversation,
      createMessage = MemStorage_createMessage\<rparr>"

definition databaseStorage :: "DatabaseStorage IStorage" where
  "databaseStorage =
     \<lparr>getUserById = DatabaseStorage_getUserById,
      isUserInConversation = DatabaseStorage_isUserInConversation,
      getFriendRequestById = DatabaseStorage_getFriendRequestById,
      updateFriendRequestStatus = DatabaseStorage_updateFriendRequestStatus,
      findOrCreatePrivateConversation = DatabaseStorage_findOrCreatePrivateConversation,
      createMessage = DatabaseStorage_createMessage\<rparr>"

datatype HttpResponse = Success | NotFound | Forbidden

record UpdatePayload =
  up_requestId :: string
  up_status :: Decision
  up_senderId :: string
  up_receiverId :: string

text \<open>
  The PATCH handler of a friend request, after \<^verbatim>\<open>verifyToken\<close> has set \<open>userId\<close> and the
  body has parsed to \<^verbatim>\<open>accepted\<close> or \<^verbatim>\<open>rejected\<close>. It returns the response, the events
  emitted on the socket server, and the storage. \<open>newConvId\<close>, \<open>newMsgId\<close> and the two
  clock readings are what the storage calls of the accepting branch draw.
\<close>

definition updateRequest ::
  "'s IStorage \<Rightarrow> 's \<Rightarrow> string \<Rightarrow> string \<Rightarrow> Decision \<Rightarrow> string \<Rightarrow> string \<Rightarrow> int \<Rightarrow> int
     \<Rightarrow> HttpResponse \<times> (string \<times> UpdatePayload) list \<times> 's" where
  "updateRequest storage st userId requestId d newConvId newMsgId now1 now2 =
     (case getFriendRequestById storage st requestId of
        None \<Rightarrow> (NotFound, [], st)
      | Some request \<Rightarrow>
          if fr_receiverId request \<noteq> userId then (Forbidden, [], st)
          else
            (let st1 = updateFriendRequestStatus storage st requestId d;
                 st2 = (if d = accept then
                          (let (conversation, st') =
                                 findOrCreatePrivateConversation storage st1
                                   (fr_receiverId request) (fr_senderId request) newConvId now1;
                               (message, st'') =
                                 createMessage storage st'
                                   \<lparr>im_conversationId = c_id conversation, im_senderId = None,
                                    im_content = ''You both are friends now'',
                                    im_isSystem = True\<rparr> newMsgId now2
                           in st'')
                        else st1);
                 updatePayload = \<lparr>up_requestId = requestId, up_status = d,
                                   up_senderId = fr_senderId request,
                                   up_receiverId = fr_receiverId request\<rparr>
             in (Success,
                 [(''user:'' @ fr_senderId request @ '':friendRequestUpdate'', updatePayload),
                  (''user:'' @ fr_receiverId request @ '':friendRequestUpdate'', updatePayload)],
                 st2)))"

section \<open>The typing indicator of the realtime gateway (unnamed/part_005)\<close>

text \<open>
  \<^verbatim>\<open>socket.to(room).emit("typing", payload)\<close> reaches every socket of the room except the
  emitting one: an emission records the room, the excluded socket and the payload.
\<close>

record TypingPayload =
  tp_conversationId :: string
  tp_userId :: string
  tp_username :: string
  tp_displayName :: string
  tp_isTyping :: bool

record Emission =
  em_room :: string
  em_except :: string
  em_payload :: TypingPayload

text \<open>
  A timer of the runtime: its handle, the time at which it is due, and what its callback
  captured (the socket, the conversation, the user and the key).
\<close>

record Timeout =
  t_handle :: nat
  t_due :: int
  t_socket :: string
  t_conversationId :: string
  t_user :: User
  t_timeoutKey :: string

text \<open>
  The gateway: the module's \<^verbatim>\<open>typingTimeouts\<close> map (key to timer handle), the timers the
  runtime holds (\<^verbatim>\<open>setTimeout\<close> adds one with a new handle, \<^verbatim>\<open>clearTimeout\<close> removes
  it, firing removes it and runs its callback), and the emissions made so far.
\<close>

record Gateway =
  typingTimeouts :: "(string \<times> nat) list"
  timers :: "Timeout list"
  nextHandle :: nat
  emitted :: "Emission list"

definition timeoutKeyOf :: "string \<Rightarrow> string \<Rightarrow> string" where
  "timeoutKeyOf userId conversationId = userId @ '':'' @ conversationId"

definition typingEmission :: "string \<Rightarrow> string \<Rightarrow> User \<Rightarrow> bool \<Rightarrow> Emission" where
  "typingEmission socketId conversationId user isTyping =
     \<lparr>em_room = ''conversation:'' @ conversationId, em_except = socketId,
      em_payload = \<lparr>tp_conversationId = conversationId, tp_userId = u_id user,
                     tp_username = username user, tp_displayName = displayName user,
                     tp_isTyping = isTyping\<rparr>\<rparr>"



text \<open>The callback given to \<^verbatim>\<open>setTimeout\<close>.\<close>

definition timeoutCallback :: "Gateway \<Rightarrow> Timeout \<Rightarrow> Gateway" where
  "timeoutCallback g t =
     g\<lparr>emitted := emitted g @ [typingEmission (t_socket t) (t_conversationId t) (t_user t) False],
       typingTimeouts := AList.delete (t_timeoutKey t) (typingTimeouts g)\<rparr>"











definition emptyGateway :: Gateway where
  "emptyGateway = \<lparr>typingTimeouts = [], timers = [], nextHandle = 0, emitted = []\<rparr>"

text \<open>
  What holds of the gateway state after any run of handlers and firings from the empty
  state: a timer the runtime still holds is the one registered under its key, its key was
  built from the user and conversation it captured, handles are not reused, and the map
  holds each handle once.
\<close>

definition gateway_ok :: "Gateway \<Rightarrow> bool" where
  "gateway_ok g =
     ((\<forall>t \<in> set (timers g).
          map_of (typingTimeouts g) (t_timeoutKey t) = Some (t_handle t) \<and>
          t_timeoutKey t = timeoutKeyOf (u_id (t_user t)) (t_conversationId t) \<and>
          t_handle t < nextHandle g) \<and>
      distinct (map t_handle (timers g)) \<and>
      distinct (map snd (typingTimeouts g)) \<and>
      (\<forall>h \<in> set (map snd (typingTimeouts g)). h < nextHandle g))"

section \<open>A small store, in both implementations\<close>

text \<open>
  Three users, one direct conversation between Alice and Bob holding three messages (the
  second one a system message), and three friend requests. The same content is laid out
  as a \<^typ>\<open>MemStorage\<close> and as a \<^typ>\<open>DatabaseStorage\<close>.
\<close>

definition alice :: User where
  "alice = \<lparr>u_id = ''u-alice'', username = ''alice'', displayName = ''Alice Johnson'', isOnline = False\<rparr>"
definition bob :: User where
  "bob = \<lparr>u_id = ''u-bob'', username = ''bob'', displayName = ''Bob Smith'', isOnline = False\<rparr>"
definition charlie :: User where
  "charlie = \<lparr>u_id = ''u-charlie'', username = ''charlie'', displayName = ''Charlie Davis'', isOnline = False\<rparr>"

definition demoConversation :: Conversation where
  "demoConversation = \<lparr>c_id = ''c1'', c_name = None, isGroup = False, c_createdAt = 1, lastMessageAt = Some 9\<rparr>"

definition demoParticipants :: "ConversationParticipant list" where
  "demoParticipants =
     [\<lparr>p_conversationId = ''c1'', p_userId = ''u-alice'', joinedAt = 1, lastReadAt = Some 8\<rparr>,
      \<lparr>p_conversationId = ''c1'', p_userId = ''u-bob'', joinedAt = 1, lastReadAt = Some 5\<rparr>]"

definition demoMessages :: "Message list" where
  "demoMessages =
     [\<lparr>m_id = ''m1'', m_conversationId = ''c1'', m_senderId = Some ''u-alice'', m_content = ''hi'',
       isSystem = False, m_createdAt = 3\<rparr>,
      \<lparr>m_id = ''m2'', m_conversationId = ''c1'', m_senderId = None, m_content = ''notice'',
       isSystem = True, m_createdAt = 7\<rparr>,
      \<lparr>m_id = ''m3'', m_conversationId = ''c1'', m_senderId = Some ''u-alice'', m_content = ''yo'',
       isSystem = False, m_createdAt = 9\<rparr>]"

definition demoRequests :: "FriendRequest list" where
  "demoRequests =
     [\<lparr>fr_id = ''r1'', fr_senderId = ''u-alice'', fr_receiverId = ''u-bob'', status = accepted, fr_createdAt = 1\<rparr>,
      \<lparr>fr_id = ''r2'', fr_senderId = ''u-charlie'', fr_receiverId = ''u-alice'', status = rejected, fr_createdAt = 2\<rparr>,
      \<lparr>fr_id = ''r3'', fr_senderId = ''u-bob'', fr_receiverId = ''u-charlie'', status = pending, fr_createdAt = 4\<rparr>]"

definition demoMem :: MemStorage where
  "demoMem =
     \<lparr>users = [(''u-alice'', alice), (''u-bob'', bob), (''u-charlie'', charlie)],
      conversations = [(''c1'', demoConversation)],
      conversationParticipants = [(''c1'', demoParticipants)],
      messages = [(''c1'', demoMessages)],
      friendRequests = map (\<lambda>r. (fr_id r, r)) demoRequests\<rparr>"

definition demoDb :: DatabaseStorage where
  "demoDb =
     \<lparr>db_users = [alice, bob, charlie],
      db_conversations = [demoConversation],
      db_conversationParticipants = demoParticipants,
      db_messages = demoMessages,
      db_friendRequests = demoRequests\<rparr>"

lemmas demo_defs = demoMem_def demoDb_def demoRequests_def demoMessages_def demoParticipants_def
  demoConversation_def alice_def bob_def charlie_def


section \<open>Notions used to state the properties\<close>

text \<open>
  A message that the sender-resolving loop keeps: a system message, or one whose sender
  is found.
\<close>

definition resolves :: "(string \<Rightarrow> User option) \<Rightarrow> Message \<Rightarrow> bool" where
  "resolves getUser m =
     (isSystem m \<or> (case m_senderId m of None \<Rightarrow> False | Some s \<Rightarrow> getUser s \<noteq> None))"

text \<open>The messages of a conversation in the messages table.\<close>

definition db_messagesOf :: "DatabaseStorage \<Rightarrow> string \<Rightarrow> Message list" where
  "db_messagesOf st conversationId =
     filter (\<lambda>m. m_conversationId m = conversationId) (db_messages st)"

text \<open>
  The window as the specification words it: the first \<open>limit\<close> messages in timestamp
  order.
\<close>

definition spec_oldestWindow :: "nat \<Rightarrow> Message list \<Rightarrow> Message list" where
  "spec_oldestWindow limit ms = take limit (sort_key m_createdAt ms)"

text \<open>Every friend request is stored under its own id, as \<^verbatim>\<open>load\<close> and every \<^verbatim>\<open>set\<close> do.\<close>

definition keyedById :: "(string \<times> FriendRequest) list \<Rightarrow> bool" where
  "keyedById m = list_all (\<lambda>(k, x). k = fr_id x) m"

text \<open>A group request whose list of participants includes the creator, Alice, as the
  new-chat dialog of unnamed/part_002 sends it.\<close>

definition groupRequest :: CreateConversationRequest where
  "groupRequest = \<lparr>participantIds = [''u-bob'', ''u-charlie'', ''u-alice''], req_isGroup = True,
                    req_name = Some ''Team Chat''\<rparr>"

text \<open>
  An id that \<^verbatim>\<open>crypto.randomUUID()\<close> may return for a new conversation: one that no
  stored conversation and no membership row carries.
\<close>

definition mem_freshConversationId :: "MemStorage \<Rightarrow> string \<Rightarrow> bool" where
  "mem_freshConversationId st i =
     (i \<notin> set (map fst (conversations st)) \<and> i \<notin> set (map (c_id \<circ> snd) (conversations st)) \<and>
      i \<notin> set (map fst (conversationParticipants st)))"

definition db_freshConversationId :: "DatabaseStorage \<Rightarrow> string \<Rightarrow> bool" where
  "db_freshConversationId st i =
     (i \<notin> set (map c_id (db_conversations st)) \<and>
      i \<notin> set (map p_conversationId (db_conversationParticipants st)))"

text \<open>
  What the schema makes the database enforce and the lookups below rely on: \<^verbatim>\<open>users.id\<close>
  is a primary key, and \<^verbatim>\<open>conversation_participants.user_id\<close> references it.
\<close>

definition db_integrity :: "DatabaseStorage \<Rightarrow> bool" where
  "db_integrity st =
     (distinct (map u_id (db_users st)) \<and>
      list_all (\<lambda>p. p_userId p \<in> set (map u_id (db_users st))) (db_conversationParticipants st))"

text \<open>The system message the accepting branch of the route appends.\<close>

definition friendsNotice :: "string \<Rightarrow> string \<Rightarrow> int \<Rightarrow> Message" where
  "friendsNotice messageId conversationId now =
     \<lparr>m_id = messageId, m_conversationId = conversationId, m_senderId = None,
      m_content = ''You both are friends now'', isSystem = True, m_createdAt = now\<rparr>"


section \<open>Unread counts\<close>

lemma find_None_list_ex: "(find P xs = None) = (\<not> list_ex P xs)"
  by (induction xs) auto

lemma length_filter_split:
  "length (filter P xs) =
     length (filter (\<lambda>x. P x \<and> Q x) xs) + length (filter (\<lambda>x. P x \<and> \<not> Q x) xs)"
  by (induction xs) auto


lemma mem_messages_cp_update [simp]:
  "mem_messages (st\<lparr>conversationParticipants := x\<rparr>) c = mem_messages st c"
  by (simp add: mem_messages_def)

text \<open>
  \<^bold>\<open>C1.\<close> A participant \<open>P\<close> of conversation \<open>C\<close> has a membership row there. Let
  \<open>row\<close> be the one that \<^verbatim>\<open>getUnreadCount\<close> reads (the first, should there be several) and
  \<open>w\<close> its last-read watermark. Then the unread count is the number of messages of \<open>C\<close>
  created strictly after \<open>w\<close>, in both implementations; the system flag plays no part, so
  the count is the sum of the system and of the ordinary messages created after \<open>w\<close>.
\<close>

theorem getUnreadCount_counts_newer_messages:
  "(MemStorage_isUserInConversation st P C \<longrightarrow>
      find (\<lambda>p. p_userId p = P) (mem_participants st C) \<noteq> None) \<and>
   (DatabaseStorage_isUserInConversation db P C \<longrightarrow>
      find (\<lambda>p. p_userId p = P \<and> p_conversationId p = C) (db_conversationParticipants db) \<noteq> None) \<and>
   (find (\<lambda>p. p_userId p = P) (mem_participants st C) = Some row \<and> lastReadAt row = Some w \<longrightarrow>
      MemStorage_getUnreadCount st P C
        = length (filter (\<lambda>m. w < m_createdAt m) (mem_messages st C)) \<and>
      MemStorage_getUnreadCount st P C
        = length (filter (\<lambda>m. w < m_createdAt m \<and> isSystem m) (mem_messages st C))
          + length (filter (\<lambda>m. w < m_createdAt m \<and> \<not> isSystem m) (mem_messages st C)))
   \<and>
   (find (\<lambda>p. p_userId p = P \<and> p_conversationId p = C) (db_conversationParticipants db) = Some row'
      \<and> lastReadAt row' = Some w' \<longrightarrow>
      DatabaseStorage_getUnreadCount db P C
        = length (filter (\<lambda>m. m_conversationId m = C \<and> w' < m_createdAt m) (db_messages db)) \<and>
      DatabaseStorage_getUnreadCount db P C
        = length (filter (\<lambda>m. m_conversationId m = C \<and> w' < m_createdAt m \<and> isSystem m)
                    (db_messages db))
          + length (filter (\<lambda>m. m_conversationId m = C \<and> w' < m_createdAt m \<and> \<not> isSystem m)
                      (db_messages db)))"
proof -
  have mem: "MemStorage_getUnreadCount st P C
        = length (filter (\<lambda>m. w < m_createdAt m) (mem_messages st C))"
    if "find (\<lambda>p. p_userId p = P) (mem_participants st C) = Some row" "lastReadAt row = Some w"
    using that by (simp add: MemStorage_getUnreadCount_def orEpoch_def)
  have db: "DatabaseStorage_getUnreadCount db P C
        = length (filter (\<lambda>m. m_conversationId m = C \<and> w' < m_createdAt m) (db_messages db))"
    if "find (\<lambda>p. p_userId p = P \<and> p_conversationId p = C) (db_conversationParticipants db) = Some row'"
       "lastReadAt row' = Some w'"
    using that by (simp add: DatabaseStorage_getUnreadCount_def)
  show ?thesis
    using mem db
      length_filter_split [of "\<lambda>m. w < m_createdAt m" "mem_messages st C" isSystem]
      length_filter_split [of "\<lambda>m. m_conversationId m = C \<and> w' < m_createdAt m" "db_messages db" isSystem]
    by (simp add: MemStorage_isUserInConversation_def DatabaseStorage_isUserInConversation_def
        find_None_list_ex)
qed

text \<open>Bob last read at 5; the system message of 7 and the message of 9 are unread.\<close>

theorem getUnreadCount_counts_newer_messages_witness:
  "MemStorage_isUserInConversation demoMem ''u-bob'' ''c1'' \<and>
   MemStorage_getUnreadCount demoMem ''u-bob'' ''c1'' = 2 \<and>
   DatabaseStorage_isUserInConversation demoDb ''u-bob'' ''c1'' \<and>
   DatabaseStorage_getUnreadCount demoDb ''u-bob'' ''c1'' = 2"
  using getUnreadCount_counts_newer_messages
    [of demoMem "''u-bob''" "''c1''" demoDb
        "\<lparr>p_conversationId = ''c1'', p_userId = ''u-bob'', joinedAt = 1, lastReadAt = Some 5\<rparr>" 5
        "\<lparr>p_conversationId = ''c1'', p_userId = ''u-bob'', joinedAt = 1, lastReadAt = Some 5\<rparr>" 5]
  by (simp add: demo_defs mem_participants_def mem_messages_def
      MemStorage_isUserInConversation_def DatabaseStorage_isUserInConversation_def)

text \<open>
  \<^bold>\<open>C10.\<close> For a user who is not a participant of the conversation, the unread count is
  \<open>0\<close> in both implementations; no error is raised.
\<close>

theorem getUnreadCount_non_participant:
  "(\<not> MemStorage_isUserInConversation st U C \<longrightarrow> MemStorage_getUnreadCount st U C = 0) \<and>
   (\<not> DatabaseStorage_isUserInConversation db U C \<longrightarrow> DatabaseStorage_getUnreadCount db U C = 0)"
  by (simp add: MemStorage_isUserInConversation_def MemStorage_getUnreadCount_def
      DatabaseStorage_isUserInConversation_def DatabaseStorage_getUnreadCount_def
      find_None_list_ex [symmetric])

theorem getUnreadCount_non_participant_witness:
  "\<not> MemStorage_isUserInConversation demoMem ''u-charlie'' ''c1'' \<and>
   MemStorage_getUnreadCount demoMem ''u-charlie'' ''c1'' = 0 \<and>
   \<not> DatabaseStorage_isUserInConversation demoDb ''u-charlie'' ''c1'' \<and>
   DatabaseStorage_getUnreadCount demoDb ''u-charlie'' ''c1'' = 0"
  using getUnreadCount_non_participant [of demoMem "''u-charlie''" "''c1''" demoDb]
  by (simp add: demo_defs MemStorage_isUserInConversation_def mem_participants_def
      DatabaseStorage_isUserInConversation_def)

section \<open>Marking a conversation as read\<close>






lemma find_map_mark:
  "find Q (map (\<lambda>p. if Q p then f p else p) xs) = map_option f (find Q xs)"
  if "\<And>x. Q (f x) = Q x"
  using that by (induction xs) auto

lemma filter_map_marked:
  "(\<And>x. Q (f x) = Q x) \<Longrightarrow>
   filter Q (map (\<lambda>p. if Q p then f p else p) xs) = map f (filter Q xs)"
  by (induction xs) auto




lemma filter_map_other:
  "(\<And>x. R x \<Longrightarrow> \<not> Q x \<and> \<not> Q (f x)) \<Longrightarrow> filter Q (map (\<lambda>p. if R p then f p else p) xs) = filter Q xs"
  by (induction xs) auto





section \<open>The message window\<close>

lemma map_fst_withSenders: "map fst (withSenders g ms) = filter (resolves g) ms"
  by (induction ms) (auto simp: resolves_def split: option.splits)

lemma sorted_filter_key: "sorted (map f xs) \<Longrightarrow> sorted (map f (filter P xs))"
  by (induction xs) auto

lemma mem_window:
  assumes "0 < limit" "limit < length ms" "sorted (map m_createdAt ms)"
  shows "\<exists>older W. ms = older @ W \<and> length W = limit \<and> sorted (map m_createdAt W) \<and>
           (\<forall>old \<in> set older. \<forall>m \<in> set W. m_createdAt old \<le> m_createdAt m) \<and>
           map fst (withSenders g (sliceLast limit ms)) = filter (resolves g) W"
proof (intro exI conjI)
  let ?n = "length ms - limit"
  show "ms = take ?n ms @ drop ?n ms" by simp
  show "length (drop ?n ms) = limit" using assms by simp
  have s: "sorted (map m_createdAt (take ?n ms @ drop ?n ms))" using assms by simp
  show "sorted (map m_createdAt (drop ?n ms))"
    using s unfolding map_append sorted_append by blast
  show "\<forall>old \<in> set (take ?n ms). \<forall>m \<in> set (drop ?n ms). m_createdAt old \<le> m_createdAt m"
    using s unfolding map_append sorted_append by auto
  show "map fst (withSenders g (sliceLast limit ms)) = filter (resolves g) (drop ?n ms)"
    using assms by (simp add: sliceLast_def map_fst_withSenders)
qed

lemma sorted_neg_key: "sorted (map (\<lambda>m. - f m) xs) = sorted_wrt (\<lambda>a b. (f b :: int) \<le> f a) xs"
  by (simp add: sorted_map)

lemma db_window:
  assumes "limit < length ms"
  shows "\<exists>older W. mset ms = mset older + mset W \<and> length W = limit \<and> sorted (map m_createdAt W) \<and>
           (\<forall>old \<in> set older. \<forall>m \<in> set W. m_createdAt old \<le> m_createdAt m) \<and>
           map fst (withSenders g (rev (take limit (orderByCreatedAtDesc ms)))) = filter (resolves g) W"
proof (intro exI conjI)
  let ?xs = "orderByCreatedAtDesc ms"
  have len: "length ?xs = length ms" by (simp add: orderByCreatedAtDesc_def)
  have "sorted (map (\<lambda>m. - m_createdAt m) ?xs)"
    unfolding orderByCreatedAtDesc_def by (rule sorted_sort_key)
  then have d: "sorted_wrt (\<lambda>a b. m_createdAt b \<le> m_createdAt a) (take limit ?xs @ drop limit ?xs)"
    by (simp add: sorted_neg_key)
  have "mset ms = mset ?xs" by (simp add: orderByCreatedAtDesc_def)
  also have "\<dots> = mset (take limit ?xs @ drop limit ?xs)" by simp
  also have "\<dots> = mset (drop limit ?xs) + mset (rev (take limit ?xs))"
    unfolding mset_append mset_rev by (rule add.commute)
  finally show "mset ms = mset (drop limit ?xs) + mset (rev (take limit ?xs))" .
  show "length (rev (take limit ?xs)) = limit" using assms len by simp
  show "sorted (map m_createdAt (rev (take limit ?xs)))"
    using d unfolding sorted_wrt_append by (simp add: sorted_map sorted_wrt_rev)
  show "\<forall>old \<in> set (drop limit ?xs). \<forall>m \<in> set (rev (take limit ?xs)). m_createdAt old \<le> m_createdAt m"
    using d unfolding sorted_wrt_append by auto
  show "map fst (withSenders g (rev (take limit ?xs))) = filter (resolves g) (rev (take limit ?xs))"
    by (rule map_fst_withSenders)
qed

text \<open>
  \<^bold>\<open>C4\<close>, as stated, fails. The demo conversation holds three messages, created at 3,
  7 and 9. With \<open>limit = 2\<close> both implementations return the messages of 7 and 9, while
  the oldest two are those of 3 and 7.
\<close>

theorem getMessagesByConversationId_oldest_counterexample:
  "2 < length (mem_messages demoMem ''c1'') \<and>
   map (m_id \<circ> fst) (MemStorage_getMessagesByConversationId demoMem ''c1'' 2) = [''m2'', ''m3''] \<and>
   map m_id (spec_oldestWindow 2 (mem_messages demoMem ''c1'')) = [''m1'', ''m2''] \<and>
   2 < length (db_messagesOf demoDb ''c1'') \<and>
   map (m_id \<circ> fst) (DatabaseStorage_getMessagesByConversationId demoDb ''c1'' 2) = [''m2'', ''m3''] \<and>
   map m_id (spec_oldestWindow 2 (db_messagesOf demoDb ''c1'')) = [''m1'', ''m2'']"
  by (simp add: MemStorage_getMessagesByConversationId_def mem_messages_def sliceLast_def
      MemStorage_getUserById_def DatabaseStorage_getMessagesByConversationId_def
      orderByCreatedAtDesc_def DatabaseStorage_getUserById_def spec_oldestWindow_def
      db_messagesOf_def demo_defs)

text \<open>
  \<^bold>\<open>C4\<close>, amended. For a conversation with more than \<open>limit\<close> messages the call returns
  the newest \<open>limit\<close> messages, oldest first, leaving out the messages whose sender is
  not found. \<^verbatim>\<open>DatabaseStorage\<close>: the conversation's messages split into a window \<open>W\<close>
  of \<open>limit\<close> messages, ascending in time, and older ones, none of them later than any
  message of \<open>W\<close>. \<^verbatim>\<open>MemStorage\<close>, for \<open>limit \<ge> 1\<close>: \<open>W\<close> is the last \<open>limit\<close> entries
  of the log, which are the newest when the log is in timestamp order.
\<close>

theorem getMessagesByConversationId_newest_window:
  "(0 < limit \<and> limit < length (mem_messages st C) \<and> sorted (map m_createdAt (mem_messages st C)) \<longrightarrow>
      (\<exists>older W. mem_messages st C = older @ W \<and> length W = limit \<and>
         sorted (map m_createdAt W) \<and>
         (\<forall>old \<in> set older. \<forall>m \<in> set W. m_createdAt old \<le> m_createdAt m) \<and>
         map fst (MemStorage_getMessagesByConversationId st C limit)
           = filter (resolves (MemStorage_getUserById st)) W)) \<and>
   (limit < length (db_messagesOf db C) \<longrightarrow>
      (\<exists>older W. mset (db_messagesOf db C) = mset older + mset W \<and> length W = limit \<and>
         sorted (map m_createdAt W) \<and>
         (\<forall>old \<in> set older. \<forall>m \<in> set W. m_createdAt old \<le> m_createdAt m) \<and>
         map fst (DatabaseStorage_getMessagesByConversationId db C limit)
           = filter (resolves (DatabaseStorage_getUserById db)) W))"
  using mem_window [of limit "mem_messages st C" "MemStorage_getUserById st"]
    db_window [of limit "db_messagesOf db C" "DatabaseStorage_getUserById db"]
  by (simp add: MemStorage_getMessagesByConversationId_def
      DatabaseStorage_getMessagesByConversationId_def db_messagesOf_def)

theorem getMessagesByConversationId_newest_window_witness:
  "(\<exists>older W. mem_messages demoMem ''c1'' = older @ W \<and> length W = 2 \<and>
         sorted (map m_createdAt W) \<and>
         (\<forall>old \<in> set older. \<forall>m \<in> set W. m_createdAt old \<le> m_createdAt m) \<and>
         map fst (MemStorage_getMessagesByConversationId demoMem ''c1'' 2)
           = filter (resolves (MemStorage_getUserById demoMem)) W) \<and>
   (\<exists>older W. mset (db_messagesOf demoDb ''c1'') = mset older + mset W \<and> length W = 2 \<and>
         sorted (map m_createdAt W) \<and>
         (\<forall>old \<in> set older. \<forall>m \<in> set W. m_createdAt old \<le> m_createdAt m) \<and>
         map fst (DatabaseStorage_getMessagesByConversationId demoDb ''c1'' 2)
           = filter (resolves (DatabaseStorage_getUserById demoDb)) W)"
proof -
  have m: "0 < (2::nat) \<and> 2 < length (mem_messages demoMem ''c1'') \<and>
      sorted (map m_createdAt (mem_messages demoMem ''c1''))"
    by (simp add: mem_messages_def demo_defs)
  have d: "2 < length (db_messagesOf demoDb ''c1'')"
    by (simp add: db_messagesOf_def demo_defs)
  show ?thesis
    using getMessagesByConversationId_newest_window [of 2 demoMem "''c1''" demoDb] m d
    by blast
qed


section \<open>Friend requests\<close>

text \<open>
  \<^bold>\<open>C5\<close>, as stated, fails. Charlie's request to Alice was rejected: \<open>r2\<close>, the only record
  between the two. When Alice sends a request to Charlie, the record returned has the id
  \<open>r2\<close> of the rejected record, which is now stored as pending, and the store holds the
  same three ids as before: no record with a fresh id.
\<close>

theorem sendFriendRequest_fresh_id_counterexample:
  "filter (betweenPair ''u-alice'' ''u-charlie'') (map snd (friendRequests demoMem))
     = [\<lparr>fr_id = ''r2'', fr_senderId = ''u-charlie'', fr_receiverId = ''u-alice'',
          status = rejected, fr_createdAt = 2\<rparr>] \<and>
   fr_id (fst (MemStorage_sendFriendRequest demoMem ''u-alice'' ''u-charlie'' ''r-new'' 20)) = ''r2'' \<and>
   map fst (friendRequests (snd (MemStorage_sendFriendRequest demoMem ''u-alice'' ''u-charlie'' ''r-new'' 20)))
     = [''r1'', ''r2'', ''r3''] \<and>
   filter (betweenPair ''u-alice'' ''u-charlie'') (db_friendRequests demoDb)
     = [\<lparr>fr_id = ''r2'', fr_senderId = ''u-charlie'', fr_receiverId = ''u-alice'',
          status = rejected, fr_createdAt = 2\<rparr>] \<and>
   fr_id (fst (DatabaseStorage_sendFriendRequest demoDb ''u-alice'' ''u-charlie'' ''r-new'' 20)) = ''r2'' \<and>
   set (map fr_id (db_friendRequests (snd (DatabaseStorage_sendFriendRequest demoDb ''u-alice'' ''u-charlie'' ''r-new'' 20))))
     = {''r1'', ''r2'', ''r3''} \<and>
   length (db_friendRequests (snd (DatabaseStorage_sendFriendRequest demoDb ''u-alice'' ''u-charlie'' ''r-new'' 20)))
     = 3"
  by (simp add: Let_def MemStorage_sendFriendRequest_def DatabaseStorage_sendFriendRequest_def
      betweenPair_def demo_defs)

lemma update_keys_same: "k \<in> fst ` set al \<Longrightarrow> map fst (AList.update k v al) = map fst al"
  by (induction al) auto

lemma find_Some_set: "find P xs = Some x \<Longrightarrow> x \<in> set xs \<and> P x"
  by (induction xs) (auto split: if_splits)

lemma filter_single_find: "filter P xs = [x] \<Longrightarrow> find P xs = Some x"
  by (induction xs) (auto split: if_splits)

lemma keyedById_key: "keyedById m \<Longrightarrow> x \<in> snd ` set m \<Longrightarrow> fr_id x \<in> fst ` set m"
  by (force simp: keyedById_def list_all_iff)

lemma renewed_by_id:
  fixes x y :: FriendRequest
  shows "fr_id x = fr_id y \<Longrightarrow>
   x\<lparr>status := a, fr_senderId := b, fr_receiverId := c, fr_createdAt := d\<rparr>
     = y\<lparr>status := a, fr_senderId := b, fr_receiverId := c, fr_createdAt := d\<rparr>"
  by (cases x; cases y) simp

lemma mem_send_rejected:
  assumes only: "filter (betweenPair senderId receiverId) (map snd (friendRequests st)) = [existing]"
    and rej: "status existing = rejected"
  shows "MemStorage_sendFriendRequest st senderId receiverId newId now
       = (existing\<lparr>status := pending, fr_senderId := senderId, fr_receiverId := receiverId,
                    fr_createdAt := now\<rparr>,
          st\<lparr>friendRequests := AList.update (fr_id existing)
                (existing\<lparr>status := pending, fr_senderId := senderId, fr_receiverId := receiverId,
                           fr_createdAt := now\<rparr>) (friendRequests st)\<rparr>)"
  using filter_single_find [OF only] rej
  by (simp add: MemStorage_sendFriendRequest_def Let_def)

lemma mem_send_kept:
  assumes only: "filter (betweenPair senderId receiverId) (map snd (friendRequests st)) = [existing]"
    and other: "status existing \<noteq> rejected"
  shows "MemStorage_sendFriendRequest st senderId receiverId newId now = (existing, st)"
  using filter_single_find [OF only] other
  by (simp add: MemStorage_sendFriendRequest_def)

lemma mem_send_keys:
  assumes only: "filter (betweenPair senderId receiverId) (map snd (friendRequests st)) = [existing]"
    and keyed: "keyedById (friendRequests st)"
  shows "map fst (AList.update (fr_id existing) v (friendRequests st)) = map fst (friendRequests st)"
proof -
  from filter_single_find [OF only] have "existing \<in> snd ` set (friendRequests st)"
    using find_Some_set by fastforce
  with keyed show ?thesis
    by (intro update_keys_same keyedById_key)
qed

lemma db_send_rejected:
  assumes only: "filter (betweenPair senderId receiverId) (db_friendRequests db) = [existing]"
    and rej: "status existing = rejected"
  shows "DatabaseStorage_sendFriendRequest db senderId receiverId newId now
       = (existing\<lparr>status := pending, fr_senderId := senderId, fr_receiverId := receiverId,
                    fr_createdAt := now\<rparr>,
          db\<lparr>db_friendRequests :=
               map (\<lambda>r. if fr_id r = fr_id existing
                         then r\<lparr>status := pending, fr_senderId := senderId,
                                fr_receiverId := receiverId, fr_createdAt := now\<rparr>
                         else r) (db_friendRequests db)\<rparr>)"
  using filter_single_find [OF only] rej
  by (simp add: DatabaseStorage_sendFriendRequest_def Let_def)

lemma db_send_kept:
  assumes only: "filter (betweenPair senderId receiverId) (db_friendRequests db) = [existing]"
    and other: "status existing \<noteq> rejected"
  shows "DatabaseStorage_sendFriendRequest db senderId receiverId newId now = (existing, db)"
  using filter_single_find [OF only] other
  by (simp add: DatabaseStorage_sendFriendRequest_def)

lemma db_send_stored:
  assumes only: "filter (betweenPair senderId receiverId) (db_friendRequests db) = [existing]"
    and rej: "status existing = rejected"
  shows "DatabaseStorage_getFriendRequestById
           (snd (DatabaseStorage_sendFriendRequest db senderId receiverId newId now)) (fr_id existing)
         = Some (existing\<lparr>status := pending, fr_senderId := senderId, fr_receiverId := receiverId,
                          fr_createdAt := now\<rparr>)"
    and "set (filter (\<lambda>x. fr_id x = fr_id existing)
           (db_friendRequests (snd (DatabaseStorage_sendFriendRequest db senderId receiverId newId now))))
         = {existing\<lparr>status := pending, fr_senderId := senderId, fr_receiverId := receiverId,
                      fr_createdAt := now\<rparr>}"
    and "mset (filter (\<lambda>x. fr_id x \<noteq> fr_id existing)
           (db_friendRequests (snd (DatabaseStorage_sendFriendRequest db senderId receiverId newId now))))
         = mset (filter (\<lambda>x. fr_id x \<noteq> fr_id existing) (db_friendRequests db))"
    and "length (db_friendRequests (snd (DatabaseStorage_sendFriendRequest db senderId receiverId newId now)))
         = length (db_friendRequests db)"
proof -
  let ?upd = "\<lambda>r. r\<lparr>status := pending, fr_senderId := senderId, fr_receiverId := receiverId,
                        fr_createdAt := now\<rparr>"
  let ?Q = "\<lambda>x. fr_id x = fr_id existing"
  let ?rows = "map (\<lambda>r. if ?Q r then ?upd r else r) (db_friendRequests db)"
  have rows: "db_friendRequests (snd (DatabaseStorage_sendFriendRequest db senderId receiverId newId now))
      = ?rows"
    by (simp add: db_send_rejected [OF only rej])
  from filter_single_find [OF only] have mem: "existing \<in> set (db_friendRequests db)"
    using find_Some_set by fastforce
  have same: "?upd x = ?upd existing" if "?Q x" for x
    using that by (rule renewed_by_id)
  have f: "filter ?Q ?rows = map ?upd (filter ?Q (db_friendRequests db))"
    by (rule filter_map_marked) simp
  have "find ?Q ?rows = map_option ?upd (find ?Q (db_friendRequests db))"
    by (rule find_map_mark) simp
  moreover from mem obtain x where x: "find ?Q (db_friendRequests db) = Some x"
    by (cases "find ?Q (db_friendRequests db)") (auto simp: find_None_iff)
  moreover have "?upd x = ?upd existing"
  proof (rule same)
    from find_Some_set [OF x] show "?Q x" by blast
  qed
  ultimately have "find ?Q ?rows = Some (?upd existing)"
    by (simp only: option.map)
  then show "DatabaseStorage_getFriendRequestById
           (snd (DatabaseStorage_sendFriendRequest db senderId receiverId newId now)) (fr_id existing)
         = Some (?upd existing)"
    by (simp only: DatabaseStorage_getFriendRequestById_def rows)
  have "?upd ` {x \<in> set (db_friendRequests db). ?Q x} = {?upd existing}"
  proof (intro equalityI subsetI)
    fix y assume "y \<in> ?upd ` {x \<in> set (db_friendRequests db). ?Q x}"
    then obtain z where z: "y = ?upd z" "?Q z" by blast
    from same [OF z(2)] z(1) show "y \<in> {?upd existing}" by (simp only: singletonI)
  next
    fix y assume "y \<in> {?upd existing}"
    then have "y = ?upd existing" by (simp only: singleton_iff)
    with mem show "y \<in> ?upd ` {x \<in> set (db_friendRequests db). ?Q x}" by blast
  qed
  moreover have "set (filter ?Q ?rows) = ?upd ` {x \<in> set (db_friendRequests db). ?Q x}"
    unfolding f by (simp only: set_map set_filter)
  ultimately show "set (filter ?Q
           (db_friendRequests (snd (DatabaseStorage_sendFriendRequest db senderId receiverId newId now))))
         = {?upd existing}"
    by (simp only: rows)
  have "filter (\<lambda>x. fr_id x \<noteq> fr_id existing) ?rows
      = filter (\<lambda>x. fr_id x \<noteq> fr_id existing) (db_friendRequests db)"
    by (rule filter_map_other) simp
  then show "mset (filter (\<lambda>x. fr_id x \<noteq> fr_id existing)
           (db_friendRequests (snd (DatabaseStorage_sendFriendRequest db senderId receiverId newId now))))
         = mset (filter (\<lambda>x. fr_id x \<noteq> fr_id existing) (db_friendRequests db))"
    by (simp add: rows)
  show "length (db_friendRequests (snd (DatabaseStorage_sendFriendRequest db senderId receiverId newId now)))
         = length (db_friendRequests db)"
    by (simp add: rows)
qed

text \<open>
  \<^bold>\<open>C5\<close>, amended. When the only record between the pair is rejected,
  \<^verbatim>\<open>sendFriendRequest\<close> reuses it. The record returned has the same id, status pending,
  the new sender and receiver and the new creation time, and it is what the store now
  holds under that id. Every other record is stored as before and none is added (in
  \<^verbatim>\<open>MemStorage\<close>, where each record is kept under its own id, the map has the same keys
  in the same order; in \<^verbatim>\<open>DatabaseStorage\<close> the table has as many rows, those with another
  id being the same rows). When the only record between the pair is pending or accepted,
  it is returned as it is and the store is unchanged.
\<close>

theorem sendFriendRequest_reuses_rejected_record:
  "(filter (betweenPair senderId receiverId) (map snd (friendRequests st)) = [existing] \<longrightarrow>
      (status existing = rejected \<longrightarrow>
         fst (MemStorage_sendFriendRequest st senderId receiverId newId now)
           = existing\<lparr>status := pending, fr_senderId := senderId, fr_receiverId := receiverId,
                       fr_createdAt := now\<rparr> \<and>
         fr_id (fst (MemStorage_sendFriendRequest st senderId receiverId newId now)) = fr_id existing \<and>
         MemStorage_getFriendRequestById
             (snd (MemStorage_sendFriendRequest st senderId receiverId newId now)) (fr_id existing)
           = Some (existing\<lparr>status := pending, fr_senderId := senderId,
                             fr_receiverId := receiverId, fr_createdAt := now\<rparr>) \<and>
         (i \<noteq> fr_id existing \<longrightarrow>
            MemStorage_getFriendRequestById
                (snd (MemStorage_sendFriendRequest st senderId receiverId newId now)) i
              = MemStorage_getFriendRequestById st i) \<and>
         (keyedById (friendRequests st) \<longrightarrow>
            map fst (friendRequests (snd (MemStorage_sendFriendRequest st senderId receiverId newId now)))
              = map fst (friendRequests st))) \<and>
      (status existing \<noteq> rejected \<longrightarrow>
         MemStorage_sendFriendRequest st senderId receiverId newId now = (existing, st))) \<and>
   (filter (betweenPair senderId receiverId) (db_friendRequests db) = [existing'] \<longrightarrow>
      (status existing' = rejected \<longrightarrow>
         fst (DatabaseStorage_sendFriendRequest db senderId receiverId newId now)
           = existing'\<lparr>status := pending, fr_senderId := senderId, fr_receiverId := receiverId,
                        fr_createdAt := now\<rparr> \<and>
         fr_id (fst (DatabaseStorage_sendFriendRequest db senderId receiverId newId now)) = fr_id existing' \<and>
         DatabaseStorage_getFriendRequestById
             (snd (DatabaseStorage_sendFriendRequest db senderId receiverId newId now)) (fr_id existing')
           = Some (existing'\<lparr>status := pending, fr_senderId := senderId,
                              fr_receiverId := receiverId, fr_createdAt := now\<rparr>) \<and>
         set (filter (\<lambda>x. fr_id x = fr_id existing')
               (db_friendRequests (snd (DatabaseStorage_sendFriendRequest db senderId receiverId newId now))))
           = {existing'\<lparr>status := pending, fr_senderId := senderId,
                         fr_receiverId := receiverId, fr_createdAt := now\<rparr>} \<and>
         mset (filter (\<lambda>x. fr_id x \<noteq> fr_id existing')
               (db_friendRequests (snd (DatabaseStorage_sendFriendRequest db senderId receiverId newId now))))
           = mset (filter (\<lambda>x. fr_id x \<noteq> fr_id existing') (db_friendRequests db)) \<and>
         length (db_friendRequests (snd (DatabaseStorage_sendFriendRequest db senderId receiverId newId now)))
           = length (db_friendRequests db)) \<and>
      (status existing' \<noteq> rejected \<longrightarrow>
         DatabaseStorage_sendFriendRequest db senderId receiverId newId now = (existing', db)))"
proof -
  have m: "fst (MemStorage_sendFriendRequest st senderId receiverId newId now)
           = existing\<lparr>status := pending, fr_senderId := senderId, fr_receiverId := receiverId,
                       fr_createdAt := now\<rparr> \<and>
         fr_id (fst (MemStorage_sendFriendRequest st senderId receiverId newId now)) = fr_id existing \<and>
         MemStorage_getFriendRequestById
             (snd (MemStorage_sendFriendRequest st senderId receiverId newId now)) (fr_id existing)
           = Some (existing\<lparr>status := pending, fr_senderId := senderId,
                             fr_receiverId := receiverId, fr_createdAt := now\<rparr>) \<and>
         (i \<noteq> fr_id existing \<longrightarrow>
            MemStorage_getFriendRequestById
                (snd (MemStorage_sendFriendRequest st senderId receiverId newId now)) i
              = MemStorage_getFriendRequestById st i) \<and>
         (keyedById (friendRequests st) \<longrightarrow>
            map fst (friendRequests (snd (MemStorage_sendFriendRequest st senderId receiverId newId now)))
              = map fst (friendRequests st))"
    if "filter (betweenPair senderId receiverId) (map snd (friendRequests st)) = [existing]"
      "status existing = rejected"
    using mem_send_keys [OF that(1)]
    by (simp add: mem_send_rejected [OF that] MemStorage_getFriendRequestById_def update_conv')
  have d: "fst (DatabaseStorage_sendFriendRequest db senderId receiverId newId now)
           = existing'\<lparr>status := pending, fr_senderId := senderId, fr_receiverId := receiverId,
                        fr_createdAt := now\<rparr> \<and>
         fr_id (fst (DatabaseStorage_sendFriendRequest db senderId receiverId newId now)) = fr_id existing'"
    if "filter (betweenPair senderId receiverId) (db_friendRequests db) = [existing']"
      "status existing' = rejected"
    by (simp add: db_send_rejected [OF that])
  show ?thesis
    using m d mem_send_kept [of senderId receiverId st existing newId now]
      db_send_kept [of senderId receiverId db existing' newId now]
      db_send_stored [of senderId receiverId db existing' newId now]
    by blast
qed

text \<open>
  Alice's request to Charlie reuses the rejected \<open>r2\<close>, stored as pending afterwards;
  Charlie's request to Bob returns the pending \<open>r3\<close> and changes nothing.
\<close>

theorem sendFriendRequest_reuses_rejected_record_witness:
  "fst (MemStorage_sendFriendRequest demoMem ''u-alice'' ''u-charlie'' ''r-new'' 20)
     = \<lparr>fr_id = ''r2'', fr_senderId = ''u-alice'', fr_receiverId = ''u-charlie'',
        status = pending, fr_createdAt = 20\<rparr> \<and>
   MemStorage_getFriendRequestById
       (snd (MemStorage_sendFriendRequest demoMem ''u-alice'' ''u-charlie'' ''r-new'' 20)) ''r2''
     = Some \<lparr>fr_id = ''r2'', fr_senderId = ''u-alice'', fr_receiverId = ''u-charlie'',
             status = pending, fr_createdAt = 20\<rparr> \<and>
   MemStorage_sendFriendRequest demoMem ''u-charlie'' ''u-bob'' ''r-new'' 20
     = (\<lparr>fr_id = ''r3'', fr_senderId = ''u-bob'', fr_receiverId = ''u-charlie'',
         status = pending, fr_createdAt = 4\<rparr>, demoMem) \<and>
   fst (DatabaseStorage_sendFriendRequest demoDb ''u-alice'' ''u-charlie'' ''r-new'' 20)
     = \<lparr>fr_id = ''r2'', fr_senderId = ''u-alice'', fr_receiverId = ''u-charlie'',
        status = pending, fr_createdAt = 20\<rparr> \<and>
   DatabaseStorage_getFriendRequestById
       (snd (DatabaseStorage_sendFriendRequest demoDb ''u-alice'' ''u-charlie'' ''r-new'' 20)) ''r2''
     = Some \<lparr>fr_id = ''r2'', fr_senderId = ''u-alice'', fr_receiverId = ''u-charlie'',
             status = pending, fr_createdAt = 20\<rparr> \<and>
   DatabaseStorage_sendFriendRequest demoDb ''u-charlie'' ''u-bob'' ''r-new'' 20
     = (\<lparr>fr_id = ''r3'', fr_senderId = ''u-bob'', fr_receiverId = ''u-charlie'',
         status = pending, fr_createdAt = 4\<rparr>, demoDb)"
proof -
  let ?r2 = "\<lparr>fr_id = ''r2'', fr_senderId = ''u-charlie'', fr_receiverId = ''u-alice'',
             status = rejected, fr_createdAt = 2\<rparr>"
  let ?r3 = "\<lparr>fr_id = ''r3'', fr_senderId = ''u-bob'', fr_receiverId = ''u-charlie'',
         status = pending, fr_createdAt = 4\<rparr>"
  have a: "filter (betweenPair ''u-alice'' ''u-charlie'') (map snd (friendRequests demoMem)) = [?r2]"
    "filter (betweenPair ''u-alice'' ''u-charlie'') (db_friendRequests demoDb) = [?r2]"
    by (simp_all add: betweenPair_def demo_defs)
  have b: "filter (betweenPair ''u-charlie'' ''u-bob'') (map snd (friendRequests demoMem)) = [?r3]"
    "filter (betweenPair ''u-charlie'' ''u-bob'') (db_friendRequests demoDb) = [?r3]"
    by (simp_all add: betweenPair_def demo_defs)
  show ?thesis
    using sendFriendRequest_reuses_rejected_record
        [of "''u-alice''" "''u-charlie''" demoMem ?r2 "''r-new''" 20 "''r1''" demoDb ?r2]
      sendFriendRequest_reuses_rejected_record
        [of "''u-charlie''" "''u-bob''" demoMem ?r3 "''r-new''" 20 "''r1''" demoDb ?r3] a b
    by simp
qed

text \<open>
  \<^bold>\<open>C7.\<close> When the caller is not the receiver of the request, the handler answers
  Forbidden, emits nothing and leaves the storage (so the request's status) as it was,
  whichever status was asked for and whichever implementation is behind the interface.
  A call that does not succeed never changes the storage, and a call succeeds only for
  the receiver of an existing request.
\<close>

theorem updateRequest_forbidden_unless_receiver:
  "(getFriendRequestById storage st requestId = Some request \<and> fr_receiverId request \<noteq> userId \<longrightarrow>
      updateRequest storage st userId requestId d newConvId newMsgId now1 now2 = (Forbidden, [], st)) \<and>
   (fst (updateRequest storage st userId requestId d newConvId newMsgId now1 now2) \<noteq> Success \<longrightarrow>
      snd (snd (updateRequest storage st userId requestId d newConvId newMsgId now1 now2)) = st) \<and>
   (fst (updateRequest storage st userId requestId d newConvId newMsgId now1 now2) = Success \<longrightarrow>
      (case getFriendRequestById storage st requestId of
         None \<Rightarrow> False | Some request \<Rightarrow> fr_receiverId request = userId))"
  by (simp add: updateRequest_def Let_def split: option.splits prod.splits)

theorem updateRequest_forbidden_unless_receiver_witness:
  "updateRequest memStorage demoMem ''u-alice'' ''r3'' accept ''c-new'' ''m-new'' 20 21
     = (Forbidden, [], demoMem) \<and>
   updateRequest databaseStorage demoDb ''u-bob'' ''r3'' reject ''c-new'' ''m-new'' 20 21
     = (Forbidden, [], demoDb)"
proof -
  let ?r3 = "\<lparr>fr_id = ''r3'', fr_senderId = ''u-bob'', fr_receiverId = ''u-charlie'',
         status = pending, fr_createdAt = 4\<rparr>"
  have a: "getFriendRequestById memStorage demoMem ''r3'' = Some ?r3"
    by (simp add: memStorage_def MemStorage_getFriendRequestById_def demo_defs)
  have b: "getFriendRequestById databaseStorage demoDb ''r3'' = Some ?r3"
    by (simp add: databaseStorage_def DatabaseStorage_getFriendRequestById_def demo_defs)
  show ?thesis
    using updateRequest_forbidden_unless_receiver
        [of memStorage demoMem "''r3''" ?r3 "''u-alice''" accept "''c-new''" "''m-new''" 20 21]
      updateRequest_forbidden_unless_receiver
        [of databaseStorage demoDb "''r3''" ?r3 "''u-bob''" reject "''c-new''" "''m-new''" 20 21]
      a b
    by simp
qed


section \<open>Creating a conversation\<close>

text \<open>
  \<^bold>\<open>C8.\<close> Alice creates a group listing Bob, Charlie and herself. \<^verbatim>\<open>MemStorage\<close> adds
  the creator and then every listed id, four rows of which two are Alice's;
  \<^verbatim>\<open>DatabaseStorage\<close> removes the duplicate first and adds three rows.
\<close>

theorem createConversation_membership_differs:
  "map p_userId (mem_participants
       (snd (MemStorage_createConversation demoMem groupRequest ''u-alice'' ''g1'' 20)) ''g1'')
     = [''u-alice'', ''u-bob'', ''u-charlie'', ''u-alice''] \<and>
   map p_userId (db_participants
       (snd (DatabaseStorage_createConversation demoDb groupRequest ''u-alice'' ''g1'' 20)) ''g1'')
     = [''u-bob'', ''u-charlie'', ''u-alice'']"
  by (simp add: Let_def MemStorage_createConversation_def MemStorage_addParticipant_def
      mem_participants_def DatabaseStorage_createConversation_def
      DatabaseStorage_addParticipant_def db_participants_def groupRequest_def setSpread_def
      demo_defs)

section \<open>Finding or creating the direct conversation\<close>

lemma update_fresh: "k \<notin> fst ` set al \<Longrightarrow> AList.update k v al = al @ [(k, v)]"
  by (induction al) auto

lemma find_snoc:
  "find P (xs @ [x]) = (case find P xs of Some y \<Rightarrow> Some y | None \<Rightarrow> if P x then Some x else None)"
  by (induction xs) auto

lemma two_elements:
  "length xs = 2 \<Longrightarrow> a \<in> set xs \<Longrightarrow> b \<in> set xs \<Longrightarrow> a \<noteq> b \<Longrightarrow> set xs = {a, b}"
proof -
  assume l: "length xs = 2" and m: "a \<in> set xs" "b \<in> set xs" "a \<noteq> b"
  from l obtain x y where "xs = [x, y]"
    by (cases xs; cases "tl xs") auto
  with m show ?thesis by auto
qed

lemma map_of_None_keys: "k \<notin> fst ` set al \<Longrightarrow> map_of al k = None"
  by (simp add: map_of_eq_None_iff)

lemma mem_create_private:
  assumes "mem_freshConversationId st newId"
  shows "MemStorage_createConversation st
           \<lparr>participantIds = [B], req_isGroup = False, req_name = None\<rparr> A newId now
       = (\<lparr>c_id = newId, c_name = None, isGroup = False, c_createdAt = now, lastMessageAt = Some now\<rparr>,
          st\<lparr>conversations := conversations st @
                 [(newId, \<lparr>c_id = newId, c_name = None, isGroup = False, c_createdAt = now,
                           lastMessageAt = Some now\<rparr>)],
              conversationParticipants := conversationParticipants st @
                 [(newId, [\<lparr>p_conversationId = newId, p_userId = A, joinedAt = now, lastReadAt = Some now\<rparr>,
                           \<lparr>p_conversationId = newId, p_userId = B, joinedAt = now, lastReadAt = Some now\<rparr>])]\<rparr>)"
proof -
  from assms have a: "newId \<notin> fst ` set (conversations st)"
    and b: "newId \<notin> fst ` set (conversationParticipants st)"
    by (auto simp: mem_freshConversationId_def)
  show ?thesis
    using map_of_None_keys [OF b]
    by (simp add: MemStorage_createConversation_def MemStorage_addParticipant_def Let_def
        mem_participants_def orNull_def update_conv' update_fresh [OF a] update_fresh [OF b])
qed

lemma mem_participants_append:
  assumes "k \<notin> fst ` set (conversationParticipants st)"
  shows "mem_participants (st\<lparr>conversations := cs,
             conversationParticipants := conversationParticipants st @ [(k, v)]\<rparr>) c
           = (if c = k then v else mem_participants st c)"
  using map_of_None_keys [OF assms]
  by (simp add: mem_participants_def map_add_def split: option.splits)

lemma find_cong_set: "(\<And>x. x \<in> set xs \<Longrightarrow> P x = Q x) \<Longrightarrow> find P xs = find Q xs"
  by (induction xs) auto

lemma mem_findOrCreate_found:
  "find (mem_isPrivateOf st A B) (map snd (conversations st)) = Some conv \<Longrightarrow>
   MemStorage_findOrCreatePrivateConversation st A B newId now = (conv, st)"
  by (simp add: MemStorage_findOrCreatePrivateConversation_def)

lemma mem_findOrCreate_twice:
  assumes ab: "A \<noteq> B" and fresh: "mem_freshConversationId st newId"
    and r1: "MemStorage_findOrCreatePrivateConversation st A B newId now = (c1, st1)"
    and r2: "MemStorage_findOrCreatePrivateConversation st1 A B newId' now' = (c2, st2)"
  shows "c2 = c1 \<and> st2 = st1 \<and> \<not> isGroup c1 \<and> c1 \<in> snd ` set (conversations st1) \<and>
         set (map p_userId (mem_participants st1 (c_id c1))) = {A, B}"
proof -
  have found: "find (mem_isPrivateOf st1 A B) (map snd (conversations st1)) = Some c1 \<and>
      mem_isPrivateOf st1 A B c1 \<and> c1 \<in> snd ` set (conversations st1)"
  proof (cases "find (mem_isPrivateOf st A B) (map snd (conversations st))")
    case (Some conv)
    from mem_findOrCreate_found [OF Some] r1 have e: "c1 = conv" "st1 = st"
      by simp_all
    from Some have "conv \<in> set (map snd (conversations st))" "mem_isPrivateOf st A B conv"
      by (auto simp: find_Some_iff)
    with Some e show ?thesis by simp
  next
    case None
    define conv where "conv = \<lparr>c_id = newId, c_name = None, isGroup = False, c_createdAt = now,
       lastMessageAt = Some now\<rparr>"
    define rows where "rows = [\<lparr>p_conversationId = newId, p_userId = A, joinedAt = now, lastReadAt = Some now\<rparr>,
       \<lparr>p_conversationId = newId, p_userId = B, joinedAt = now, lastReadAt = Some now\<rparr>]"
    define st' where "st' = st\<lparr>conversations := conversations st @ [(newId, conv)],
       conversationParticipants := conversationParticipants st @ [(newId, rows)]\<rparr>"
    have "MemStorage_findOrCreatePrivateConversation st A B newId now = (conv, st')"
      using None by (simp add: MemStorage_findOrCreatePrivateConversation_def
          mem_create_private [OF fresh] conv_def rows_def st'_def)
    with r1 have e: "c1 = conv" "st1 = st'" by simp_all
    from fresh have nk: "newId \<notin> fst ` set (conversationParticipants st)"
      by (auto simp: mem_freshConversationId_def)
    have parts: "mem_participants st' c = (if c = newId then rows else mem_participants st c)" for c
      unfolding st'_def by (rule mem_participants_append [OF nk])
    have convs: "map snd (conversations st') = map snd (conversations st) @ [conv]"
      by (simp add: st'_def)
    have old: "mem_isPrivateOf st' A B c = mem_isPrivateOf st A B c"
      if "c \<in> set (map snd (conversations st))" for c
    proof -
      from that fresh have "c_id c \<noteq> newId"
        by (auto simp: mem_freshConversationId_def)
      then show ?thesis
        unfolding mem_isPrivateOf_def parts by simp
    qed
    have "find (mem_isPrivateOf st' A B) (map snd (conversations st))
        = find (mem_isPrivateOf st A B) (map snd (conversations st))"
      by (rule find_cong_set) (rule old)
    with None have f: "find (mem_isPrivateOf st' A B) (map snd (conversations st)) = None"
      by simp
    have new: "mem_isPrivateOf st' A B conv"
      unfolding mem_isPrivateOf_def parts by (simp add: conv_def rows_def)
    have "find (mem_isPrivateOf st' A B) (map snd (conversations st')) = Some conv"
      unfolding convs using f new by (simp add: find_snoc)
    moreover have "conv \<in> snd ` set (conversations st')"
      unfolding st'_def by force
    ultimately show ?thesis using e new by simp
  qed
  from mem_findOrCreate_found [of st1 A B c1 newId' now'] found r2
  have "c2 = c1" "st2 = st1" by simp_all
  moreover from found ab have "set (map p_userId (mem_participants st1 (c_id c1))) = {A, B}"
    unfolding mem_isPrivateOf_def Let_def by (intro two_elements) auto
  moreover from found have "\<not> isGroup c1" by (simp add: mem_isPrivateOf_def)
  ultimately show ?thesis using found by simp
qed

lemma db_findPrivate_Some:
  "db_findPrivate st ids = Some conv \<Longrightarrow>
   \<exists>cid \<in> set ids. DatabaseStorage_getConversationById st cid = Some conv \<and> \<not> isGroup conv \<and>
      length (DatabaseStorage_getConversationParticipants st cid) = 2"
  by (induction ids) (auto split: option.splits if_splits)

lemma db_findPrivate_append:
  "db_findPrivate st (xs @ ys) =
     (case db_findPrivate st xs of Some c \<Rightarrow> Some c | None \<Rightarrow> db_findPrivate st ys)"
  by (induction xs) (auto split: option.splits)

lemma db_findPrivate_cong:
  "(\<And>cid. cid \<in> set ids \<Longrightarrow>
      DatabaseStorage_getConversationById st' cid = DatabaseStorage_getConversationById st cid \<and>
      DatabaseStorage_getConversationParticipants st' cid = DatabaseStorage_getConversationParticipants st cid)
   \<Longrightarrow> db_findPrivate st' ids = db_findPrivate st ids"
  by (induction ids) (auto split: option.splits)

lemma db_getConversationById_id:
  "DatabaseStorage_getConversationById st i = Some conv \<Longrightarrow> c_id conv = i"
  by (auto simp: DatabaseStorage_getConversationById_def find_Some_iff)

lemma db_common_members:
  "cid \<in> set (db_commonConvIds st A B) \<Longrightarrow>
   A \<in> set (map p_userId (db_participants st cid)) \<and> B \<in> set (map p_userId (db_participants st cid))"
  by (auto simp: db_commonConvIds_def db_participants_def Let_def)

lemma db_common_ids:
  "cid \<in> set (db_commonConvIds st A B) \<Longrightarrow> cid \<in> set (map p_conversationId (db_conversationParticipants st))"
  by (auto simp: db_commonConvIds_def Let_def)

lemma length_filter_keys:
  assumes "distinct (map f xs)" "S \<subseteq> f ` set xs"
  shows "length (filter (\<lambda>x. f x \<in> S) xs) = card S"
proof -
  have "distinct (map f (filter (\<lambda>x. f x \<in> S) xs))"
    using assms(1) by (rule distinct_map_filter)
  then have "card (set (map f (filter (\<lambda>x. f x \<in> S) xs))) = length (filter (\<lambda>x. f x \<in> S) xs)"
    using distinct_card by fastforce
  moreover have "set (map f (filter (\<lambda>x. f x \<in> S) xs)) = S"
    using assms(2) by auto
  ultimately show ?thesis by simp
qed

lemma db_participants_count:
  assumes "db_integrity st"
  shows "length (DatabaseStorage_getConversationParticipants st cid)
       = card (set (map p_userId (db_participants st cid)))"
proof (cases "map p_userId (db_participants st cid) = []")
  case True
  then show ?thesis by (simp add: DatabaseStorage_getConversationParticipants_def)
next
  case False
  have "set (map p_userId (db_participants st cid)) \<subseteq> u_id ` set (db_users st)"
    using assms by (auto simp: db_integrity_def db_participants_def list_all_iff)
  with assms have "length (filter (\<lambda>u. u_id u \<in> set (map p_userId (db_participants st cid))) (db_users st))
      = card (set (map p_userId (db_participants st cid)))"
    by (intro length_filter_keys) (simp_all add: db_integrity_def)
  with False show ?thesis
    by (simp add: DatabaseStorage_getConversationParticipants_def Let_def)
qed

lemma two_of_card:
  assumes "card S = 2" "a \<in> S" "b \<in> S" "a \<noteq> b"
  shows "S = {a, b}"
proof -
  from assms(1) have "finite S" using card.infinite by fastforce
  moreover have "{a, b} \<subseteq> S" using assms by simp
  moreover have "card {a, b} = card S" using assms by simp
  ultimately show ?thesis using card_subset_eq by metis
qed

lemma db_findOrCreate_found:
  "db_findPrivate st (db_commonConvIds st A B) = Some conv \<Longrightarrow>
   DatabaseStorage_findOrCreatePrivateConversation st A B newId now = (conv, st)"
  by (simp add: DatabaseStorage_findOrCreatePrivateConversation_def)

lemma db_create_private:
  "DatabaseStorage_createConversation st
      \<lparr>participantIds = [B], req_isGroup = False, req_name = None\<rparr> A newId now
   = (\<lparr>c_id = newId, c_name = None, isGroup = False, c_createdAt = now, lastMessageAt = Some now\<rparr>,
      st\<lparr>db_conversations := db_conversations st @
             [\<lparr>c_id = newId, c_name = None, isGroup = False, c_createdAt = now,
               lastMessageAt = Some now\<rparr>],
          db_conversationParticipants := db_conversationParticipants st @
             (if A = B then [\<lparr>p_conversationId = newId, p_userId = B, joinedAt = now, lastReadAt = Some now\<rparr>]
              else [\<lparr>p_conversationId = newId, p_userId = B, joinedAt = now, lastReadAt = Some now\<rparr>,
                    \<lparr>p_conversationId = newId, p_userId = A, joinedAt = now, lastReadAt = Some now\<rparr>])\<rparr>)"
  by (simp add: DatabaseStorage_createConversation_def DatabaseStorage_addParticipant_def
      Let_def setSpread_def)

lemma db_findOrCreate_twice:
  assumes ab: "A \<noteq> B" and fresh: "db_freshConversationId st newId" and ok: "db_integrity st"
    and users: "A \<in> set (map u_id (db_users st))" "B \<in> set (map u_id (db_users st))"
    and r1: "DatabaseStorage_findOrCreatePrivateConversation st A B newId now = (c1, st1)"
    and r2: "DatabaseStorage_findOrCreatePrivateConversation st1 A B newId' now' = (c2, st2)"
  shows "c2 = c1 \<and> st2 = st1 \<and> \<not> isGroup c1 \<and>
         DatabaseStorage_getConversationById st1 (c_id c1) = Some c1 \<and>
         set (map p_userId (db_participants st1 (c_id c1))) = {A, B}"
proof -
  have found: "db_findPrivate st1 (db_commonConvIds st1 A B) = Some c1 \<and> db_integrity st1"
  proof (cases "db_findPrivate st (db_commonConvIds st A B)")
    case (Some conv)
    from db_findOrCreate_found [OF Some] r1 have "c1 = conv" "st1 = st" by simp_all
    with Some ok show ?thesis by simp
  next
    case None
    define conv where "conv = \<lparr>c_id = newId, c_name = None, isGroup = False, c_createdAt = now,
       lastMessageAt = Some now\<rparr>"
    define rowA where "rowA = \<lparr>p_conversationId = newId, p_userId = A, joinedAt = now, lastReadAt = Some now\<rparr>"
    define rowB where "rowB = \<lparr>p_conversationId = newId, p_userId = B, joinedAt = now, lastReadAt = Some now\<rparr>"
    define st' where "st' = st\<lparr>db_conversations := db_conversations st @ [conv],
       db_conversationParticipants := db_conversationParticipants st @ [rowB, rowA]\<rparr>"
    have "DatabaseStorage_findOrCreatePrivateConversation st A B newId now = (conv, st')"
      using None ab by (simp add: DatabaseStorage_findOrCreatePrivateConversation_def
          db_create_private conv_def rowA_def rowB_def st'_def)
    with r1 have e: "c1 = conv" "st1 = st'" by simp_all
    from fresh have nc: "\<forall>c \<in> set (db_conversations st). c_id c \<noteq> newId"
      and np: "\<forall>p \<in> set (db_conversationParticipants st). p_conversationId p \<noteq> newId"
      by (auto simp: db_freshConversationId_def)
    have ok': "db_integrity st'"
      using ok users by (simp add: db_integrity_def st'_def rowA_def rowB_def)
    have parts: "db_participants st' cid = (if cid = newId then [rowB, rowA] else db_participants st cid)" for cid
      using np by (auto simp: db_participants_def st'_def rowA_def rowB_def filter_empty_conv)
    have byId: "DatabaseStorage_getConversationById st' cid
        = (if cid = newId then Some conv else DatabaseStorage_getConversationById st cid)" for cid
    proof (cases "cid = newId")
      case True
      have "find (\<lambda>c. c_id c = newId) (db_conversations st) = None"
        using nc by (simp add: find_None_iff)
      with True show ?thesis
        by (simp add: DatabaseStorage_getConversationById_def st'_def find_snoc conv_def)
    next
      case False
      then show ?thesis
        by (simp add: DatabaseStorage_getConversationById_def st'_def find_snoc conv_def
            split: option.splits)
    qed
    have users': "DatabaseStorage_getConversationParticipants st' cid
        = DatabaseStorage_getConversationParticipants st cid" if "cid \<noteq> newId" for cid
      using that by (simp add: DatabaseStorage_getConversationParticipants_def parts)
        (simp add: st'_def)
    have common: "db_commonConvIds st' A B = db_commonConvIds st A B @ [newId]"
      using ab np by (auto simp: db_commonConvIds_def Let_def st'_def rowA_def rowB_def
          intro!: filter_cong)
    have "db_findPrivate st' (db_commonConvIds st A B) = db_findPrivate st (db_commonConvIds st A B)"
    proof (rule db_findPrivate_cong)
      fix cid assume "cid \<in> set (db_commonConvIds st A B)"
      then have "cid \<noteq> newId" using db_common_ids np by fastforce
      then show "DatabaseStorage_getConversationById st' cid = DatabaseStorage_getConversationById st cid \<and>
        DatabaseStorage_getConversationParticipants st' cid = DatabaseStorage_getConversationParticipants st cid"
        by (simp add: byId users')
    qed
    with None have old: "db_findPrivate st' (db_commonConvIds st A B) = None" by simp
    have "length (DatabaseStorage_getConversationParticipants st' newId) = 2"
      using ab by (simp add: db_participants_count [OF ok'] parts rowA_def rowB_def)
    then have "db_findPrivate st' [newId] = Some conv"
      by (simp add: byId conv_def)
    then have "db_findPrivate st' (db_commonConvIds st' A B) = Some conv"
      unfolding common db_findPrivate_append old by simp
    with e ok' show ?thesis by simp
  qed
  from db_findOrCreate_found [of st1 A B c1 newId' now'] found r2
  have same: "c2 = c1" "st2 = st1" by simp_all
  from found obtain cid where cid: "cid \<in> set (db_commonConvIds st1 A B)"
    "DatabaseStorage_getConversationById st1 cid = Some c1" "\<not> isGroup c1"
    "length (DatabaseStorage_getConversationParticipants st1 cid) = 2"
    using db_findPrivate_Some by blast
  from cid(2) have i: "c_id c1 = cid" by (rule db_getConversationById_id)
  from cid(4) found have "card (set (map p_userId (db_participants st1 cid))) = 2"
    by (simp add: db_participants_count)
  with db_common_members [OF cid(1)] ab
  have "set (map p_userId (db_participants st1 cid)) = {A, B}"
    by (intro two_of_card) auto
  with same cid i show ?thesis by simp
qed

text \<open>
  \<^bold>\<open>C3.\<close> For distinct users \<open>A\<close> and \<open>B\<close>, let a first call of
  \<^verbatim>\<open>findOrCreatePrivateConversation(A, B)\<close> return \<open>c1\<close> and a second call, made right
  after it, return \<open>c2\<close>. Then \<open>c2\<close> is \<open>c1\<close> (the same id), the second call changes
  nothing, \<open>c1\<close> is a stored non-group conversation, and the users of its membership
  rows are exactly \<open>A\<close> and \<open>B\<close>. The id drawn by the first call is new. For
  \<^verbatim>\<open>DatabaseStorage\<close>, whose lookup counts the user rows of the members, the integrity
  constraints of the schema hold and \<open>A\<close> and \<open>B\<close> are users.
\<close>

theorem findOrCreatePrivateConversation_twice:
  "(A \<noteq> B \<and> mem_freshConversationId st newId \<and>
    MemStorage_findOrCreatePrivateConversation st A B newId now = (c1, st1) \<and>
    MemStorage_findOrCreatePrivateConversation st1 A B newId' now' = (c2, st2) \<longrightarrow>
      c_id c2 = c_id c1 \<and> c2 = c1 \<and> st2 = st1 \<and> \<not> isGroup c1 \<and>
      c1 \<in> snd ` set (conversations st1) \<and>
      set (map p_userId (mem_participants st1 (c_id c1))) = {A, B}) \<and>
   (A \<noteq> B \<and> db_freshConversationId db newId \<and> db_integrity db \<and>
    A \<in> set (map u_id (db_users db)) \<and> B \<in> set (map u_id (db_users db)) \<and>
    DatabaseStorage_findOrCreatePrivateConversation db A B newId now = (d1, db1) \<and>
    DatabaseStorage_findOrCreatePrivateConversation db1 A B newId' now' = (d2, db2) \<longrightarrow>
      c_id d2 = c_id d1 \<and> d2 = d1 \<and> db2 = db1 \<and> \<not> isGroup d1 \<and>
      DatabaseStorage_getConversationById db1 (c_id d1) = Some d1 \<and>
      set (map p_userId (db_participants db1 (c_id d1))) = {A, B})"
  using mem_findOrCreate_twice [of A B st newId now c1 st1 newId' now' c2 st2]
    db_findOrCreate_twice [of A B db newId now d1 db1 newId' now' d2 db2]
  by blast

text \<open>
  Alice and Charlie have no conversation yet: the first call creates \<open>c2\<close>, the second
  finds it.
\<close>

theorem findOrCreatePrivateConversation_twice_witness:
  "c_id (fst (MemStorage_findOrCreatePrivateConversation
            (snd (MemStorage_findOrCreatePrivateConversation demoMem ''u-alice'' ''u-charlie'' ''c2'' 20))
            ''u-alice'' ''u-charlie'' ''c3'' 21))
     = c_id (fst (MemStorage_findOrCreatePrivateConversation demoMem ''u-alice'' ''u-charlie'' ''c2'' 20)) \<and>
   set (map p_userId (mem_participants
          (snd (MemStorage_findOrCreatePrivateConversation demoMem ''u-alice'' ''u-charlie'' ''c2'' 20))
          (c_id (fst (MemStorage_findOrCreatePrivateConversation demoMem ''u-alice'' ''u-charlie'' ''c2'' 20)))))
     = {''u-alice'', ''u-charlie''} \<and>
   c_id (fst (DatabaseStorage_findOrCreatePrivateConversation
            (snd (DatabaseStorage_findOrCreatePrivateConversation demoDb ''u-alice'' ''u-charlie'' ''c2'' 20))
            ''u-alice'' ''u-charlie'' ''c3'' 21))
     = c_id (fst (DatabaseStorage_findOrCreatePrivateConversation demoDb ''u-alice'' ''u-charlie'' ''c2'' 20)) \<and>
   set (map p_userId (db_participants
          (snd (DatabaseStorage_findOrCreatePrivateConversation demoDb ''u-alice'' ''u-charlie'' ''c2'' 20))
          (c_id (fst (DatabaseStorage_findOrCreatePrivateConversation demoDb ''u-alice'' ''u-charlie'' ''c2'' 20)))))
     = {''u-alice'', ''u-charlie''}"
proof -
  have n: "''u-alice'' \<noteq> ''u-charlie''" by simp
  have f: "mem_freshConversationId demoMem ''c2''"
    by (simp add: mem_freshConversationId_def demo_defs)
  have g: "db_freshConversationId demoDb ''c2''" "db_integrity demoDb"
    "''u-alice'' \<in> set (map u_id (db_users demoDb))" "''u-charlie'' \<in> set (map u_id (db_users demoDb))"
    by (simp_all add: db_freshConversationId_def db_integrity_def demo_defs)
  show ?thesis
    using findOrCreatePrivateConversation_twice
      [of "''u-alice''" "''u-charlie''" demoMem "''c2''" 20
          "fst (MemStorage_findOrCreatePrivateConversation demoMem ''u-alice'' ''u-charlie'' ''c2'' 20)"
          "snd (MemStorage_findOrCreatePrivateConversation demoMem ''u-alice'' ''u-charlie'' ''c2'' 20)"
          "''c3''" 21
          "fst (MemStorage_findOrCreatePrivateConversation
            (snd (MemStorage_findOrCreatePrivateConversation demoMem ''u-alice'' ''u-charlie'' ''c2'' 20))
            ''u-alice'' ''u-charlie'' ''c3'' 21)"
          "snd (MemStorage_findOrCreatePrivateConversation
            (snd (MemStorage_findOrCreatePrivateConversation demoMem ''u-alice'' ''u-charlie'' ''c2'' 20))
            ''u-alice'' ''u-charlie'' ''c3'' 21)"
          demoDb
          "fst (DatabaseStorage_findOrCreatePrivateConversation demoDb ''u-alice'' ''u-charlie'' ''c2'' 20)"
          "snd (DatabaseStorage_findOrCreatePrivateConversation demoDb ''u-alice'' ''u-charlie'' ''c2'' 20)"
          "fst (DatabaseStorage_findOrCreatePrivateConversation
            (snd (DatabaseStorage_findOrCreatePrivateConversation demoDb ''u-alice'' ''u-charlie'' ''c2'' 20))
            ''u-alice'' ''u-charlie'' ''c3'' 21)"
          "snd (DatabaseStorage_findOrCreatePrivateConversation
            (snd (DatabaseStorage_findOrCreatePrivateConversation demoDb ''u-alice'' ''u-charlie'' ''c2'' 20))
            ''u-alice'' ''u-charlie'' ''c3'' 21)"]
      n f g
    by simp
qed

section \<open>Accepting a friend request\<close>

lemma mem_findOrCreate_frame:
  "MemStorage_findOrCreatePrivateConversation st A B newId now = (c, st') \<Longrightarrow>
   messages st' = messages st \<and> friendRequests st' = friendRequests st \<and> users st' = users st"
  by (auto simp: MemStorage_findOrCreatePrivateConversation_def MemStorage_createConversation_def
      MemStorage_addParticipant_def Let_def split: option.splits)

lemma update_values:
  "map_of al k = Some x \<Longrightarrow> y \<in> snd ` set al \<Longrightarrow>
   y \<in> snd ` set (AList.update k (f x) al) \<or> (y = x \<and> f x \<in> snd ` set (AList.update k (f x) al))"
  by (induction al) (auto split: if_splits)

lemma mem_updateLast_keeps:
  assumes "conv \<in> snd ` set (conversations st)"
  shows "\<exists>t. conv\<lparr>lastMessageAt := t\<rparr>
           \<in> snd ` set (conversations (MemStorage_updateConversationLastMessage st cid now))"
proof (cases "map_of (conversations st) cid")
  case None
  with assms have "conv\<lparr>lastMessageAt := lastMessageAt conv\<rparr>
      \<in> snd ` set (conversations (MemStorage_updateConversationLastMessage st cid now))"
    by (simp add: MemStorage_updateConversationLastMessage_def)
  then show ?thesis by (rule exI)
next
  case (Some x)
  let ?al = "AList.update cid (x\<lparr>lastMessageAt := Some now\<rparr>) (conversations st)"
  have e: "conversations (MemStorage_updateConversationLastMessage st cid now) = ?al"
    using Some by (simp add: MemStorage_updateConversationLastMessage_def)
  from update_values [OF Some assms, of "\<lambda>c. c\<lparr>lastMessageAt := Some now\<rparr>"]
  have "conv\<lparr>lastMessageAt := lastMessageAt conv\<rparr> \<in> snd ` set ?al \<or>
        conv\<lparr>lastMessageAt := Some now\<rparr> \<in> snd ` set ?al"
    by auto
  then show ?thesis unfolding e by blast
qed

lemma mem_createMessage_system:
  assumes "MemStorage_createMessage st
      \<lparr>im_conversationId = cid, im_senderId = None, im_content = txt, im_isSystem = True\<rparr> newId now
        = (m, st')"
  shows "mem_messages st' c = (if c = cid then mem_messages st cid @
            [\<lparr>m_id = newId, m_conversationId = cid, m_senderId = None, m_content = txt,
              isSystem = True, m_createdAt = now\<rparr>] else mem_messages st c)"
    and "conversationParticipants st' = conversationParticipants st"
    and "friendRequests st' = friendRequests st"
    and "conversations st' = conversations (MemStorage_updateConversationLastMessage st cid now)"
  using assms
  by (auto simp: MemStorage_createMessage_def Let_def MemStorage_updateConversationLastMessage_def
      mem_messages_def update_conv' split: option.splits)

lemma mem_participants_cong:
  "conversationParticipants st' = conversationParticipants st \<Longrightarrow>
   mem_participants st' c = mem_participants st c"
  by (simp add: mem_participants_def)

lemma mem_messages_cong:
  "messages st' = messages st \<Longrightarrow> mem_messages st' c = mem_messages st c"
  by (simp add: mem_messages_def)

lemma mem_accept:
  assumes req: "MemStorage_getFriendRequestById st requestId = Some request"
    and recv: "fr_receiverId request = userId"
    and ne: "fr_senderId request \<noteq> fr_receiverId request"
    and fresh: "mem_freshConversationId st newConvId"
  shows "\<exists>events st' conv t.
      updateRequest memStorage st userId requestId accept newConvId newMsgId now1 now2
        = (Success, events, st') \<and>
      MemStorage_getFriendRequestById st' requestId = Some (request\<lparr>status := accepted\<rparr>) \<and>
      \<not> isGroup conv \<and> conv\<lparr>lastMessageAt := t\<rparr> \<in> snd ` set (conversations st') \<and>
      set (map p_userId (mem_participants st' (c_id conv))) = {fr_senderId request, fr_receiverId request} \<and>
      mem_messages st' (c_id conv) = mem_messages st (c_id conv) @ [friendsNotice newMsgId (c_id conv) now2] \<and>
      (\<forall>c. c \<noteq> c_id conv \<longrightarrow> mem_messages st' c = mem_messages st c)"
proof -
  define st1 where "st1 = MemStorage_updateFriendRequestStatus st requestId accept"
  define r where "r = MemStorage_findOrCreatePrivateConversation st1 (fr_receiverId request)
      (fr_senderId request) newConvId now1"
  define conv where "conv = fst r"
  define st2 where "st2 = snd r"
  define q where "q = MemStorage_createMessage st2
      \<lparr>im_conversationId = c_id conv, im_senderId = None,
       im_content = ''You both are friends now'', im_isSystem = True\<rparr> newMsgId now2"
  define st3 where "st3 = snd q"
  have s1: "friendRequests st1 = AList.update requestId (request\<lparr>status := accepted\<rparr>) (friendRequests st)"
    "conversations st1 = conversations st" "conversationParticipants st1 = conversationParticipants st"
    "messages st1 = messages st"
    using req by (simp_all add: st1_def MemStorage_updateFriendRequestStatus_def
        MemStorage_getFriendRequestById_def)
  have fresh1: "mem_freshConversationId st1 newConvId"
    using fresh by (simp add: mem_freshConversationId_def s1)
  have r: "MemStorage_findOrCreatePrivateConversation st1 (fr_receiverId request)
      (fr_senderId request) newConvId now1 = (conv, st2)"
    by (simp add: r_def conv_def st2_def)
  from mem_findOrCreate_twice [OF ne [symmetric] fresh1 r surjective_pairing]
  have c: "\<not> isGroup conv" "conv \<in> snd ` set (conversations st2)"
    "set (map p_userId (mem_participants st2 (c_id conv))) = {fr_receiverId request, fr_senderId request}"
    by simp_all
  from mem_findOrCreate_frame [OF r]
  have s2: "messages st2 = messages st1" "friendRequests st2 = friendRequests st1" by simp_all
  have q: "MemStorage_createMessage st2
      \<lparr>im_conversationId = c_id conv, im_senderId = None,
       im_content = ''You both are friends now'', im_isSystem = True\<rparr> newMsgId now2 = (fst q, st3)"
    by (simp add: q_def st3_def)
  note s3 = mem_createMessage_system [OF q]
  have res: "updateRequest memStorage st userId requestId accept newConvId newMsgId now1 now2
      = (Success,
         [(''user:'' @ fr_senderId request @ '':friendRequestUpdate'',
           \<lparr>up_requestId = requestId, up_status = accept, up_senderId = fr_senderId request,
            up_receiverId = fr_receiverId request\<rparr>),
          (''user:'' @ fr_receiverId request @ '':friendRequestUpdate'',
           \<lparr>up_requestId = requestId, up_status = accept, up_senderId = fr_senderId request,
            up_receiverId = fr_receiverId request\<rparr>)], st3)"
    using req recv
    by (simp add: updateRequest_def memStorage_def Let_def st3_def q_def conv_def st2_def r_def
        st1_def split: prod.splits)
  have fr: "MemStorage_getFriendRequestById st3 requestId = Some (request\<lparr>status := accepted\<rparr>)"
    by (simp add: MemStorage_getFriendRequestById_def s3(3) s2 s1 update_conv')
  from mem_updateLast_keeps [OF c(2), of "c_id conv" now2]
  obtain t where t: "conv\<lparr>lastMessageAt := t\<rparr> \<in> snd ` set (conversations st3)"
    unfolding s3(4) by blast
  have parts: "set (map p_userId (mem_participants st3 (c_id conv)))
      = {fr_senderId request, fr_receiverId request}"
    using c(3) mem_participants_cong [OF s3(2)] by auto
  have m0: "mem_messages st2 c = mem_messages st c" for c
    by (rule mem_messages_cong) (simp add: s2 s1)
  have msgs: "mem_messages st3 (c_id conv)
      = mem_messages st (c_id conv) @ [friendsNotice newMsgId (c_id conv) now2]"
    by (simp add: s3(1) m0 friendsNotice_def)
  have others: "\<forall>c. c \<noteq> c_id conv \<longrightarrow> mem_messages st3 c = mem_messages st c"
    by (simp add: s3(1) m0)
  from res fr c(1) t parts msgs others show ?thesis by blast
qed

lemma db_findOrCreate_frame:
  "DatabaseStorage_findOrCreatePrivateConversation st A B newId now = (c, st') \<Longrightarrow>
   db_messages st' = db_messages st \<and> db_friendRequests st' = db_friendRequests st \<and>
   db_users st' = db_users st"
  by (auto simp: DatabaseStorage_findOrCreatePrivateConversation_def db_create_private
      split: option.splits if_splits)

lemma db_createMessage_system:
  assumes "DatabaseStorage_createMessage st
      \<lparr>im_conversationId = cid, im_senderId = None, im_content = txt, im_isSystem = True\<rparr> newId now
        = (m, st')"
  shows "db_messages st' = db_messages st @
            [\<lparr>m_id = newId, m_conversationId = cid, m_senderId = None, m_content = txt,
              isSystem = True, m_createdAt = now\<rparr>]"
    and "db_conversationParticipants st' = db_conversationParticipants st"
    and "db_friendRequests st' = db_friendRequests st"
    and "DatabaseStorage_getConversationById st' cid
           = map_option (\<lambda>c. c\<lparr>lastMessageAt := Some now\<rparr>) (DatabaseStorage_getConversationById st cid)"
proof -
  have st': "st' = DatabaseStorage_updateConversationLastMessage
      (st\<lparr>db_messages := db_messages st @
            [\<lparr>m_id = newId, m_conversationId = cid, m_senderId = None, m_content = txt,
              isSystem = True, m_createdAt = now\<rparr>]\<rparr>) cid now"
    using assms by (auto simp: DatabaseStorage_createMessage_def Let_def)
  show "db_messages st' = db_messages st @
            [\<lparr>m_id = newId, m_conversationId = cid, m_senderId = None, m_content = txt,
              isSystem = True, m_createdAt = now\<rparr>]"
    and "db_conversationParticipants st' = db_conversationParticipants st"
    and "db_friendRequests st' = db_friendRequests st"
    by (simp_all add: st' DatabaseStorage_updateConversationLastMessage_def)
  have "find (\<lambda>c. c_id c = cid)
          (map (\<lambda>c. if c_id c = cid then c\<lparr>lastMessageAt := Some now\<rparr> else c) (db_conversations st))
      = map_option (\<lambda>c. c\<lparr>lastMessageAt := Some now\<rparr>) (find (\<lambda>c. c_id c = cid) (db_conversations st))"
    by (rule find_map_mark) simp
  then show "DatabaseStorage_getConversationById st' cid
           = map_option (\<lambda>c. c\<lparr>lastMessageAt := Some now\<rparr>) (DatabaseStorage_getConversationById st cid)"
    by (simp add: st' DatabaseStorage_updateConversationLastMessage_def
        DatabaseStorage_getConversationById_def)
qed

lemma db_participants_cong:
  "db_conversationParticipants st' = db_conversationParticipants st \<Longrightarrow>
   db_participants st' c = db_participants st c"
  by (simp add: db_participants_def)

lemma db_accept:
  assumes req: "DatabaseStorage_getFriendRequestById st requestId = Some request"
    and recv: "fr_receiverId request = userId"
    and ne: "fr_senderId request \<noteq> fr_receiverId request"
    and fresh: "db_freshConversationId st newConvId"
    and ok: "db_integrity st"
    and users: "fr_senderId request \<in> set (map u_id (db_users st))"
      "fr_receiverId request \<in> set (map u_id (db_users st))"
  shows "\<exists>events st' conv.
      updateRequest databaseStorage st userId requestId accept newConvId newMsgId now1 now2
        = (Success, events, st') \<and>
      DatabaseStorage_getFriendRequestById st' requestId = Some (request\<lparr>status := accepted\<rparr>) \<and>
      \<not> isGroup conv \<and>
      DatabaseStorage_getConversationById st' (c_id conv) = Some (conv\<lparr>lastMessageAt := Some now2\<rparr>) \<and>
      set (map p_userId (db_participants st' (c_id conv))) = {fr_senderId request, fr_receiverId request} \<and>
      db_messages st' = db_messages st @ [friendsNotice newMsgId (c_id conv) now2]"
proof -
  define st1 where "st1 = DatabaseStorage_updateFriendRequestStatus st requestId accept"
  define r where "r = DatabaseStorage_findOrCreatePrivateConversation st1 (fr_receiverId request)
      (fr_senderId request) newConvId now1"
  define conv where "conv = fst r"
  define st2 where "st2 = snd r"
  define q where "q = DatabaseStorage_createMessage st2
      \<lparr>im_conversationId = c_id conv, im_senderId = None,
       im_content = ''You both are friends now'', im_isSystem = True\<rparr> newMsgId now2"
  define st3 where "st3 = snd q"
  have s1: "db_conversations st1 = db_conversations st"
    "db_conversationParticipants st1 = db_conversationParticipants st"
    "db_messages st1 = db_messages st" "db_users st1 = db_users st"
    by (simp_all add: st1_def DatabaseStorage_updateFriendRequestStatus_def)
  have "find (\<lambda>r. fr_id r = requestId)
          (map (\<lambda>r. if fr_id r = requestId then r\<lparr>status := statusOf accept\<rparr> else r) (db_friendRequests st))
      = map_option (\<lambda>r. r\<lparr>status := statusOf accept\<rparr>) (find (\<lambda>r. fr_id r = requestId) (db_friendRequests st))"
    by (rule find_map_mark) simp
  with req have fr1: "DatabaseStorage_getFriendRequestById st1 requestId = Some (request\<lparr>status := accepted\<rparr>)"
    by (simp add: st1_def DatabaseStorage_updateFriendRequestStatus_def
        DatabaseStorage_getFriendRequestById_def)
  have fresh1: "db_freshConversationId st1 newConvId" and ok1: "db_integrity st1"
    using fresh ok by (simp_all add: db_freshConversationId_def db_integrity_def s1)
  have r: "DatabaseStorage_findOrCreatePrivateConversation st1 (fr_receiverId request)
      (fr_senderId request) newConvId now1 = (conv, st2)"
    by (simp add: r_def conv_def st2_def)
  from users have users1: "fr_receiverId request \<in> set (map u_id (db_users st1))"
    "fr_senderId request \<in> set (map u_id (db_users st1))"
    by (simp_all add: s1)
  from db_findOrCreate_twice [OF ne [symmetric] fresh1 ok1 users1 r surjective_pairing]
  have c: "\<not> isGroup conv" "DatabaseStorage_getConversationById st2 (c_id conv) = Some conv"
    "set (map p_userId (db_participants st2 (c_id conv))) = {fr_receiverId request, fr_senderId request}"
    by simp_all
  from db_findOrCreate_frame [OF r]
  have s2: "db_messages st2 = db_messages st1" "db_friendRequests st2 = db_friendRequests st1"
    by simp_all
  have q: "DatabaseStorage_createMessage st2
      \<lparr>im_conversationId = c_id conv, im_senderId = None,
       im_content = ''You both are friends now'', im_isSystem = True\<rparr> newMsgId now2 = (fst q, st3)"
    by (simp add: q_def st3_def)
  note s3 = db_createMessage_system [OF q]
  have res: "updateRequest databaseStorage st userId requestId accept newConvId newMsgId now1 now2
      = (Success,
         [(''user:'' @ fr_senderId request @ '':friendRequestUpdate'',
           \<lparr>up_requestId = requestId, up_status = accept, up_senderId = fr_senderId request,
            up_receiverId = fr_receiverId request\<rparr>),
          (''user:'' @ fr_receiverId request @ '':friendRequestUpdate'',
           \<lparr>up_requestId = requestId, up_status = accept, up_senderId = fr_senderId request,
            up_receiverId = fr_receiverId request\<rparr>)], st3)"
    using req recv
    by (simp add: updateRequest_def databaseStorage_def Let_def st3_def q_def conv_def st2_def
        r_def st1_def split: prod.splits)
  have fr: "DatabaseStorage_getFriendRequestById st3 requestId = Some (request\<lparr>status := accepted\<rparr>)"
    using fr1 by (simp add: DatabaseStorage_getFriendRequestById_def s3(3) s2)
  have cv: "DatabaseStorage_getConversationById st3 (c_id conv) = Some (conv\<lparr>lastMessageAt := Some now2\<rparr>)"
    by (simp add: s3(4) c(2))
  have parts: "set (map p_userId (db_participants st3 (c_id conv)))
      = {fr_senderId request, fr_receiverId request}"
    using c(3) db_participants_cong [OF s3(2)] by auto
  have msgs: "db_messages st3 = db_messages st @ [friendsNotice newMsgId (c_id conv) now2]"
    by (simp add: s3(1) s2 s1 friendsNotice_def)
  from res fr c(1) cv parts msgs show ?thesis by blast
qed

text \<open>
  \<^bold>\<open>C6.\<close> The receiver of a pending request from another user accepts it (the id drawn
  for a conversation being new; for \<^verbatim>\<open>DatabaseStorage\<close>, the schema's integrity
  constraints hold and both users exist). The call succeeds, and afterwards the request is
  the same record with status accepted; there is a stored non-group conversation \<open>conv\<close>
  (its last-activity time apart) whose membership rows have exactly the sender and the
  receiver as users; and the messages of \<open>conv\<close> are those it had before followed by
  one system message with the text "You both are friends now" and no sender, every other
  conversation keeping its messages.
\<close>

theorem accepting_friend_request:
  "(MemStorage_getFriendRequestById st requestId = Some request \<and> status request = pending \<and>
    fr_receiverId request = userId \<and> fr_senderId request \<noteq> fr_receiverId request \<and>
    mem_freshConversationId st newConvId \<longrightarrow>
      (\<exists>events st' conv t.
         updateRequest memStorage st userId requestId accept newConvId newMsgId now1 now2
           = (Success, events, st') \<and>
         MemStorage_getFriendRequestById st' requestId = Some (request\<lparr>status := accepted\<rparr>) \<and>
         \<not> isGroup conv \<and> conv\<lparr>lastMessageAt := t\<rparr> \<in> snd ` set (conversations st') \<and>
         set (map p_userId (mem_participants st' (c_id conv)))
           = {fr_senderId request, fr_receiverId request} \<and>
         mem_messages st' (c_id conv)
           = mem_messages st (c_id conv) @ [friendsNotice newMsgId (c_id conv) now2] \<and>
         (\<forall>c. c \<noteq> c_id conv \<longrightarrow> mem_messages st' c = mem_messages st c))) \<and>
   (DatabaseStorage_getFriendRequestById db requestId = Some request' \<and> status request' = pending \<and>
    fr_receiverId request' = userId \<and> fr_senderId request' \<noteq> fr_receiverId request' \<and>
    db_freshConversationId db newConvId \<and> db_integrity db \<and>
    fr_senderId request' \<in> set (map u_id (db_users db)) \<and>
    fr_receiverId request' \<in> set (map u_id (db_users db)) \<longrightarrow>
      (\<exists>events db' conv.
         updateRequest databaseStorage db userId requestId accept newConvId newMsgId now1 now2
           = (Success, events, db') \<and>
         DatabaseStorage_getFriendRequestById db' requestId = Some (request'\<lparr>status := accepted\<rparr>) \<and>
         \<not> isGroup conv \<and>
         DatabaseStorage_getConversationById db' (c_id conv)
           = Some (conv\<lparr>lastMessageAt := Some now2\<rparr>) \<and>
         set (map p_userId (db_participants db' (c_id conv)))
           = {fr_senderId request', fr_receiverId request'} \<and>
         db_messages db' = db_messages db @ [friendsNotice newMsgId (c_id conv) now2]))"
  using mem_accept [of st requestId request userId newConvId newMsgId now1 now2]
    db_accept [of db requestId request' userId newConvId newMsgId now1 now2]
  by blast

text \<open>Charlie accepts Bob's pending request \<open>r3\<close>.\<close>

theorem accepting_friend_request_witness:
  "(\<exists>events st' conv t.
      updateRequest memStorage demoMem ''u-charlie'' ''r3'' accept ''c2'' ''m4'' 20 21
        = (Success, events, st') \<and>
      MemStorage_getFriendRequestById st' ''r3''
        = Some (\<lparr>fr_id = ''r3'', fr_senderId = ''u-bob'', fr_receiverId = ''u-charlie'',
                  status = pending, fr_createdAt = 4\<rparr>\<lparr>status := accepted\<rparr>) \<and>
      \<not> isGroup conv \<and> conv\<lparr>lastMessageAt := t\<rparr> \<in> snd ` set (conversations st') \<and>
      set (map p_userId (mem_participants st' (c_id conv))) = {''u-bob'', ''u-charlie''} \<and>
      mem_messages st' (c_id conv)
        = mem_messages demoMem (c_id conv) @ [friendsNotice ''m4'' (c_id conv) 21] \<and>
      (\<forall>c. c \<noteq> c_id conv \<longrightarrow> mem_messages st' c = mem_messages demoMem c)) \<and>
   (\<exists>events db' conv.
      updateRequest databaseStorage demoDb ''u-charlie'' ''r3'' accept ''c2'' ''m4'' 20 21
        = (Success, events, db') \<and>
      DatabaseStorage_getFriendRequestById db' ''r3''
        = Some (\<lparr>fr_id = ''r3'', fr_senderId = ''u-bob'', fr_receiverId = ''u-charlie'',
                  status = pending, fr_createdAt = 4\<rparr>\<lparr>status := accepted\<rparr>) \<and>
      \<not> isGroup conv \<and>
      DatabaseStorage_getConversationById db' (c_id conv) = Some (conv\<lparr>lastMessageAt := Some 21\<rparr>) \<and>
      set (map p_userId (db_participants db' (c_id conv))) = {''u-bob'', ''u-charlie''} \<and>
      db_messages db' = db_messages demoDb @ [friendsNotice ''m4'' (c_id conv) 21])"
proof -
  let ?r3 = "\<lparr>fr_id = ''r3'', fr_senderId = ''u-bob'', fr_receiverId = ''u-charlie'',
              status = pending, fr_createdAt = 4\<rparr>"
  have m: "MemStorage_getFriendRequestById demoMem ''r3'' = Some ?r3 \<and> status ?r3 = pending \<and>
      fr_receiverId ?r3 = ''u-charlie'' \<and> fr_senderId ?r3 \<noteq> fr_receiverId ?r3 \<and>
      mem_freshConversationId demoMem ''c2''"
    by (simp add: MemStorage_getFriendRequestById_def mem_freshConversationId_def demo_defs)
  have d: "DatabaseStorage_getFriendRequestById demoDb ''r3'' = Some ?r3 \<and> status ?r3 = pending \<and>
      fr_receiverId ?r3 = ''u-charlie'' \<and> fr_senderId ?r3 \<noteq> fr_receiverId ?r3 \<and>
      db_freshConversationId demoDb ''c2'' \<and> db_integrity demoDb \<and>
      fr_senderId ?r3 \<in> set (map u_id (db_users demoDb)) \<and>
      fr_receiverId ?r3 \<in> set (map u_id (db_users demoDb))"
    by (simp add: DatabaseStorage_getFriendRequestById_def db_freshConversationId_def
        db_integrity_def demo_defs)
  have s: "fr_senderId ?r3 = ''u-bob''" "fr_receiverId ?r3 = ''u-charlie''"
    by simp_all
  from accepting_friend_request
    [of demoMem "''r3''" ?r3 "''u-charlie''" "''c2''" "''m4''" 20 21 demoDb ?r3] m d
  show ?thesis unfolding s by blast
qed

section \<open>The typing indicator\<close>


lemma foldl_callback_timers [simp]:
  "timers (foldl timeoutCallback g xs) = timers g"
  by (induction xs arbitrary: g) (simp_all add: timeoutCallback_def)

lemma foldl_callback_nextHandle [simp]:
  "nextHandle (foldl timeoutCallback g xs) = nextHandle g"
  by (induction xs arbitrary: g) (simp_all add: timeoutCallback_def)
























lemma gateway_ok_empty: "gateway_ok emptyGateway"
  by (simp add: gateway_ok_def emptyGateway_def)












end
